theory Spec2Isabelle
  imports Main "HOL-Library.Sublist"
begin

section \<open>Text helpers\<close>

text \<open>
  Python's \<^verbatim>\<open>sep.join(parts)\<close>: the parts with the separator between
  neighbours, nothing before the first and nothing after the last part.
\<close>

fun str_join :: "string \<Rightarrow> string list \<Rightarrow> string" where
  "str_join sep [] = []"
| "str_join sep [x] = x"
| "str_join sep (x # y # ys) = x @ sep @ str_join sep (y # ys)"

text \<open>
  Python's \<^verbatim>\<open>s.split(c)\<close> for a one-character separator: the pieces between
  the occurrences of \<open>c\<close>. The empty string splits into one empty piece.
\<close>

fun str_split :: "char \<Rightarrow> string \<Rightarrow> string list" where
  "str_split c [] = [[]]"
| "str_split c (x # xs) =
     (if x = c then [] # str_split c xs
      else (case str_split c xs of
              [] \<Rightarrow> [[x]]
            | w # ws \<Rightarrow> (x # w) # ws))"

definition comma :: char where
  "comma = CHR '',''"

definition newline :: char where
  "newline = CHR 0x0A"

definition digit_char :: "nat \<Rightarrow> char" where
  "digit_char d = ''0123456789'' ! (d mod 10)"

text \<open>Python's \<^verbatim>\<open>str(n)\<close> for a non-negative integer.\<close>

fun str_nat :: "nat \<Rightarrow> string" where
  "str_nat n = (if n < 10 then [digit_char n] else str_nat (n div 10) @ [digit_char (n mod 10)])"

declare str_nat.simps [simp del]

section \<open>Time stamps\<close>

text \<open>
  The low-level notebook names its remote resources after the clock:
  \<^verbatim>\<open>strftime("%Y-%m-%d-%H-%M-%S", gmtime())\<close>. A reading of the clock is the broken-down
  time that \<^verbatim>\<open>gmtime()\<close> returns; the formatter below covers the directives of
  that format string and copies every other character.
\<close>

record struct_time =
  tm_year :: nat
  tm_mon :: nat
  tm_mday :: nat
  tm_hour :: nat
  tm_min :: nat
  tm_sec :: nat

definition pad2 :: "nat \<Rightarrow> string" where
  "pad2 n = (if n < 10 then CHR ''0'' # str_nat n else str_nat n)"

definition directive :: "char \<Rightarrow> struct_time \<Rightarrow> string" where
  "directive d t =
     (if d = CHR ''Y'' then str_nat (tm_year t)
      else if d = CHR ''m'' then pad2 (tm_mon t)
      else if d = CHR ''d'' then pad2 (tm_mday t)
      else if d = CHR ''H'' then pad2 (tm_hour t)
      else if d = CHR ''M'' then pad2 (tm_min t)
      else if d = CHR ''S'' then pad2 (tm_sec t)
      else [CHR ''%'', d])"

fun strftime :: "string \<Rightarrow> struct_time \<Rightarrow> string" where
  "strftime [] t = []"
| "strftime [c] t = [c]"
| "strftime (c # d # r) t =
     (if c = CHR ''%'' then directive d t @ strftime r t else c # strftime (d # r) t)"

definition timestamp :: "struct_time \<Rightarrow> string" where
  "timestamp now = strftime ''%Y-%m-%d-%H-%M-%S'' now"

section \<open>Data frames and CSV files\<close>

text \<open>
  A pandas data frame: column labels, row labels (the index) and one list of
  cells per row. The cells are numbers of the array library; their type is a
  parameter, and so is \<open>fmt\<close>, the text pandas writes for one cell.
\<close>

record 'v dataframe =
  df_columns :: "string list"
  df_index :: "nat list"
  df_values :: "'v list list"

text \<open>
  \<^verbatim>\<open>pd.concat([a, b], axis=1)\<close> puts the columns of \<open>b\<close> to the right of those
  of \<open>a\<close>, row label by row label. The notebooks only join the two halves of one split,
  which carry the same index; pandas re-aligns frames with different indexes, which
  is outside this model (\<open>None\<close>).
\<close>

definition concat_axis1 :: "'v dataframe \<Rightarrow> 'v dataframe \<Rightarrow> 'v dataframe option" where
  "concat_axis1 a b =
     (if df_index a = df_index b
      then Some \<lparr>df_columns = df_columns a @ df_columns b,
                 df_index = df_index a,
                 df_values = map2 (@) (df_values a) (df_values b)\<rparr>
      else None)"

text \<open>
  \<^verbatim>\<open>df.to_csv(path, header=..., index=...)\<close>: an optional line of column labels,
  then one line per row, optionally led by the row label; fields are separated by
  commas and every line ends with a newline.
\<close>

definition to_csv :: "('v \<Rightarrow> string) \<Rightarrow> 'v dataframe \<Rightarrow> bool \<Rightarrow> bool \<Rightarrow> string" where
  "to_csv fmt df header index =
     (let head_line =
            (if header
             then [str_join [comma] ((if index then [[]] else []) @ df_columns df)]
             else []);
          row_line =
            (\<lambda>(i, row). str_join [comma] ((if index then [str_nat i] else []) @ map fmt row));
          lines = head_line @ map row_line (zip (df_index df) (df_values df))
      in concat (map (\<lambda>l. l @ [newline]) lines))"

definition data_dir :: string where
  "data_dir = ''../data/boston''"

definition os_path_join :: "string \<Rightarrow> string \<Rightarrow> string" where
  "os_path_join a b = a @ ''/'' @ b"

text \<open>
  The cell that saves the data; it is the same text in both notebooks:
  \<^verbatim>\<open>
  pd.concat([Y_val, X_val], axis=1).to_csv(os.path.join(data_dir, 'validation.csv'), header=False, index=False)
  pd.concat([Y_train, X_train], axis=1).to_csv(os.path.join(data_dir, 'train.csv'), header=False, index=False)
  \<close>
  The result is the list of files written, each with its content, in the order written.
\<close>

definition save_cell ::
  "('v \<Rightarrow> string) \<Rightarrow> 'v dataframe \<Rightarrow> 'v dataframe \<Rightarrow> 'v dataframe \<Rightarrow> 'v dataframe
     \<Rightarrow> (string \<times> string) list option" where
  "save_cell fmt X_train Y_train X_val Y_val =
     (case concat_axis1 Y_val X_val of
        None \<Rightarrow> None
      | Some val \<Rightarrow>
          (case concat_axis1 Y_train X_train of
             None \<Rightarrow> None
           | Some train \<Rightarrow>
               Some [(os_path_join data_dir ''validation.csv'', to_csv fmt val False False),
                     (os_path_join data_dir ''train.csv'', to_csv fmt train False False)]))"

text \<open>A frame has one row label per row, and the text of a cell has neither a
  comma nor a newline in it (pandas would quote such a field; numbers never need it).\<close>

definition well_formed :: "'v dataframe \<Rightarrow> bool" where
  "well_formed df = (length (df_index df) = length (df_values df))"

definition plain_cells :: "('v \<Rightarrow> string) \<Rightarrow> 'v dataframe \<Rightarrow> bool" where
  "plain_cells fmt df =
     list_all (list_all (\<lambda>v. comma \<notin> set (fmt v) \<and> newline \<notin> set (fmt v))) (df_values df)"

definition single_column :: "'v dataframe \<Rightarrow> bool" where
  "single_column df = list_all (\<lambda>row. length row = 1) (df_values df)"

text \<open>Reading a CSV text back: its newline-terminated lines, each split at the commas.\<close>

definition csv_records :: "string \<Rightarrow> string list list" where
  "csv_records s = map (str_split comma) (butlast (str_split newline s))"

section \<open>Low-level notebook: serialising the test matrix\<close>

text \<open>
  \<^verbatim>\<open>
  payload = [[str(entry) for entry in row] for row in X_test.values]
  payload = '\n'.join([','.join(row) for row in payload])
  \<close>
  \<open>str\<close> is Python's conversion of one cell to text, a parameter of the model.
\<close>

definition payload :: "('a \<Rightarrow> string) \<Rightarrow> 'a list list \<Rightarrow> string" where
  "payload str X_test_values =
     (let payload = map (map str) X_test_values
      in str_join [newline] (map (str_join [comma]) payload))"

text \<open>Reading a payload back: split on newlines, then each line on commas.\<close>

definition unpayload :: "string \<Rightarrow> string list list" where
  "unpayload s = map (str_split comma) (str_split newline s)"

section \<open>Parsing the endpoint's response\<close>

text \<open>
  \<^verbatim>\<open>np.fromstring(text, sep=',')\<close> reads the items of a text that are separated by
  \<open>sep\<close> and converts each one to a floating-point number; an empty text has no
  items. The conversion of one item (the C library's \<open>strtod\<close>, rounding to the
  nearest representable number) is a parameter.
\<close>

definition fromstring :: "(string \<Rightarrow> 'n) \<Rightarrow> string \<Rightarrow> char \<Rightarrow> 'n list" where
  "fromstring strtod s sep = (if s = [] then [] else map strtod (str_split sep s))"

text \<open>
  High level: \<^verbatim>\<open>Y_pred = np.fromstring(Y_pred, sep=',')\<close> on the decoded result of
  \<^verbatim>\<open>predict\<close>; low level: \<^verbatim>\<open>Y_pred = np.fromstring(result, sep=',')\<close> on the
  decoded body of the response.
\<close>

definition hl_parse :: "(string \<Rightarrow> 'n) \<Rightarrow> string \<Rightarrow> 'n list" where
  "hl_parse strtod Y_pred = fromstring strtod Y_pred comma"

definition ll_parse :: "(string \<Rightarrow> 'n) \<Rightarrow> string \<Rightarrow> 'n list" where
  "ll_parse strtod result = fromstring strtod result comma"

text \<open>A decimal number as text: an optional sign, digits with at most one point,
  and at least one digit.\<close>

definition is_digit :: "char \<Rightarrow> bool" where
  "is_digit c = (c \<in> set ''0123456789'')"

definition unsigned :: "string \<Rightarrow> string" where
  "unsigned s =
     (case s of
        [] \<Rightarrow> []
      | c # r \<Rightarrow> if c = CHR ''-'' \<or> c = CHR ''+'' then r else s)"

definition is_decimal :: "string \<Rightarrow> bool" where
  "is_decimal s =
     (list_all (\<lambda>c. is_digit c \<or> c = CHR ''.'') (unsigned s)
      \<and> list_ex is_digit (unsigned s)
      \<and> length (filter (\<lambda>c. c = CHR ''.'') (unsigned s)) \<le> 1)"

section \<open>Splitting the data\<close>

text \<open>
  \<^verbatim>\<open>sklearn.model_selection.train_test_split(X, Y, test_size=..., random_state=...)\<close>
  shuffles the rows and cuts them in two, the same way for \<open>X\<close> and \<open>Y\<close>; a row of
  the model is a labelled row of the dataset, its features and its target together. The shuffle is the
  library's and is a parameter: it is driven by the size of the test part and by a
  random number generator, seeded from \<open>random_state\<close> when the call passes one and
  otherwise left in whatever state the process-wide generator has at the call.
\<close>

record split_args =
  test_size :: string
  random_state :: "nat option"

type_synonym 'r shuffle = "string \<Rightarrow> nat \<Rightarrow> 'r list \<Rightarrow> 'r list \<times> 'r list"

definition train_test_split ::
  "'r shuffle \<Rightarrow> nat \<Rightarrow> split_args \<Rightarrow> 'r list \<Rightarrow> 'r list \<times> 'r list" where
  "train_test_split shuffle global_rng args rows =
     shuffle (test_size args)
       (case random_state args of Some seed \<Rightarrow> seed | None \<Rightarrow> global_rng) rows"

text \<open>High level: both calls pass \<^verbatim>\<open>test_size=0.33, random_state=1123\<close>.\<close>

definition hl_split_args :: split_args where
  "hl_split_args = \<lparr>test_size = ''0.33'', random_state = Some 1123\<rparr>"

text \<open>Low level: both calls pass \<^verbatim>\<open>test_size=0.33\<close> and no \<open>random_state\<close>.\<close>

definition ll_split_args :: split_args where
  "ll_split_args = \<lparr>test_size = ''0.33'', random_state = None\<rparr>"

text \<open>
  The cell of Step 2, the same in both notebooks up to the arguments:
  \<^verbatim>\<open>
  X_train, X_test, Y_train, Y_test = train_test_split(X_bos_pd, Y_bos_pd, ...)
  X_train, X_val, Y_train, Y_val = train_test_split(X_train, Y_train, ...)
  \<close>
  \<open>g1\<close> and \<open>g2\<close> are the states of the process-wide generator at the two calls.
  The result is (train, validation, test).
\<close>

definition two_stage_split ::
  "'r shuffle \<Rightarrow> split_args \<Rightarrow> nat \<Rightarrow> nat \<Rightarrow> 'r list \<Rightarrow> 'r list \<times> 'r list \<times> 'r list" where
  "two_stage_split shuffle args g1 g2 bos =
     (let (train, test) = train_test_split shuffle g1 args bos;
          (train, val) = train_test_split shuffle g2 args train
      in (train, val, test))"

definition hl_split :: "'r shuffle \<Rightarrow> nat \<Rightarrow> nat \<Rightarrow> 'r list \<Rightarrow> 'r list \<times> 'r list \<times> 'r list" where
  "hl_split shuffle g1 g2 bos = two_stage_split shuffle hl_split_args g1 g2 bos"

definition ll_split :: "'r shuffle \<Rightarrow> nat \<Rightarrow> nat \<Rightarrow> 'r list \<Rightarrow> 'r list \<times> 'r list \<times> 'r list" where
  "ll_split shuffle g1 g2 bos = two_stage_split shuffle ll_split_args g1 g2 bos"

text \<open>A pair of lists splits \<open>rows\<close>: no row in both, every row in one.\<close>

definition splits :: "'r list \<Rightarrow> 'r list \<times> 'r list \<Rightarrow> bool" where
  "splits rows p = (set (fst p) \<inter> set (snd p) = {} \<and> set (fst p) \<union> set (snd p) = set rows)"

definition splits3 :: "'r list \<Rightarrow> 'r list \<times> 'r list \<times> 'r list \<Rightarrow> bool" where
  "splits3 rows p =
     (case p of (train, val, test) \<Rightarrow>
        set train \<inter> set val = {} \<and> set train \<inter> set test = {} \<and> set val \<inter> set test = {}
        \<and> set train \<union> set val \<union> set test = set rows)"

section \<open>The local data directory\<close>

text \<open>
  The file system as far as the notebooks touch it: what is found at a path, given
  as its list of components. \<^verbatim>\<open>os.path.exists\<close> is true of a file as well as of
  a directory. \<^verbatim>\<open>os.makedirs(p)\<close> (with the default \<^verbatim>\<open>exist_ok=False\<close>) raises
  when something is already at \<open>p\<close> or when a file is in the way of the directories
  it has to create, and otherwise creates \<open>p\<close> and the missing directories above it.
  Opening a file for writing needs its parent to be a directory.
\<close>

datatype node = File | Dir

datatype os_error = FileExistsError | FileNotFoundError | NotADirectoryError | IsADirectoryError

type_synonym filesystem = "string list \<rightharpoonup> node"

definition components :: "string \<Rightarrow> string list" where
  "components p = str_split CHR ''/'' p"

definition path_exists :: "filesystem \<Rightarrow> string \<Rightarrow> bool" where
  "path_exists fs p = (fs (components p) \<noteq> None)"

definition ancestors :: "string list \<Rightarrow> string list list" where
  "ancestors cs = butlast (tl (prefixes cs))"

definition makedirs :: "filesystem \<Rightarrow> string \<Rightarrow> os_error + filesystem" where
  "makedirs fs p =
     (let cs = components p in
      if fs cs \<noteq> None then Inl FileExistsError
      else if list_ex (\<lambda>a. fs a = Some File) (ancestors cs) then Inl NotADirectoryError
      else Inr (fold (\<lambda>a f. f(a \<mapsto> Dir)) (ancestors cs @ [cs]) fs))"

definition open_for_writing :: "filesystem \<Rightarrow> string \<Rightarrow> os_error + filesystem" where
  "open_for_writing fs p =
     (let cs = components p in
      case fs (butlast cs) of
        None \<Rightarrow> Inl FileNotFoundError
      | Some File \<Rightarrow> Inl NotADirectoryError
      | Some Dir \<Rightarrow> if fs cs = Some Dir then Inl IsADirectoryError else Inr (fs(cs \<mapsto> File)))"

text \<open>
  The guard, the same text in both notebooks:
  \<^verbatim>\<open>
  data_dir = '../data/boston'
  if not os.path.exists(data_dir):
      os.makedirs(data_dir)
  \<close>
\<close>

definition ensure_data_dir :: "filesystem \<Rightarrow> os_error + filesystem" where
  "ensure_data_dir fs = (if \<not> path_exists fs data_dir then makedirs fs data_dir else Inr fs)"

text \<open>The cell that saves the data opens the validation file and then the train
  file for writing; the first failure ends the cell.\<close>

definition write_files :: "filesystem \<Rightarrow> os_error + filesystem" where
  "write_files fs =
     (case open_for_writing fs (os_path_join data_dir ''validation.csv'') of
        Inl e \<Rightarrow> Inl e
      | Inr fs' \<Rightarrow> open_for_writing fs' (os_path_join data_dir ''train.csv''))"

text \<open>A write fails for lack of a parent directory when the parent is missing or
  is not a directory.\<close>

definition lacks_parent :: "os_error + filesystem \<Rightarrow> bool" where
  "lacks_parent r = (r = Inl FileNotFoundError \<or> r = Inl NotADirectoryError)"

section \<open>The notebooks as scripts\<close>

text \<open>
  A notebook is run from its first code cell to its last. What it does to the world
  is the sequence of calls it makes into the libraries and the platform, each with
  the arguments that matter here. Hyperparameter values are Python values; the client
  library sends each as its \<^verbatim>\<open>str\<close>.
\<close>

datatype pyval = PyInt nat | PyFloat string | PyStr string

text \<open>A float is kept as its literal; for the literals of the notebook
  (\<^verbatim>\<open>0.2\<close>, \<^verbatim>\<open>0.8\<close>) Python's \<^verbatim>\<open>str\<close> gives the literal back.\<close>

fun py_str :: "pyval \<Rightarrow> string" where
  "py_str (PyInt n) = str_nat n"
| "py_str (PyFloat literal) = literal"
| "py_str (PyStr s) = s"

record training_params =
  TrainingJobName :: string
  TrainingImage :: "string \<times> string \<times> string"
  S3OutputPath :: string
  InstanceCount :: nat
  InstanceType :: string
  VolumeSizeInGB :: nat
  MaxRuntimeInSeconds :: nat
  HyperParameters :: "(string \<times> string) list"
  InputDataConfig :: "(string \<times> string) list"

datatype call =
    Session
  | Get_execution_role
  | Load_boston
  | DataFrame
  | Train_test_split split_args
  | Path_exists string
  | Makedirs string
  | To_csv string bool bool
  | Upload_data string string
  | Get_image_uri string string string
  | Estimator "string \<times> string \<times> string" nat string string
  | Set_hyperparameters "(string \<times> pyval) list"
  | S3_input string
  | Fit "(string \<times> string) list"
  | Deploy string nat string
  | Predict string string
  | Create_training_job training_params
  | Logs_for_job string
  | Describe_training_job string
  | Create_model string "string \<times> string \<times> string"
  | Create_endpoint_config string string nat string
  | Create_endpoint string string
  | Wait_for_endpoint string
  | Build_payload
  | Invoke_endpoint string string
  | Fromstring
  | Pyplot string
  | Delete_endpoint string
  | Shell string

text \<open>
  What a run finds outside the notebook: the local file system when the guard of the
  data directory looks at it, and the region and the default bucket of the session.
\<close>

record world =
  local_fs :: filesystem
  boto_region_name :: string
  default_bucket :: string

text \<open>
  The calls of the high-level notebook, cell by cell, as a run makes them when no
  call raises. A run stops at the first call that raises; runs are defined further
  down, from the cells, and the calls of every run are shown to be an initial part of
  this list. \<open>endpoint\<close> is the name the client library gives the endpoint that
  \<^verbatim>\<open>deploy\<close> creates; the predictor returned by \<^verbatim>\<open>deploy\<close> is bound to it, and
  \<^verbatim>\<open>predict\<close> and \<^verbatim>\<open>delete_endpoint\<close> are methods of that predictor.
\<close>

definition hl_notebook :: "world \<Rightarrow> string \<Rightarrow> call list" where
  "hl_notebook w endpoint =
     (let calls = [Session, Get_execution_role];
          calls = calls @ [Load_boston];
          calls = calls @ [DataFrame, DataFrame,
                           Train_test_split hl_split_args, Train_test_split hl_split_args];
          calls = calls @ [Path_exists data_dir]
                        @ (if \<not> path_exists (local_fs w) data_dir then [Makedirs data_dir] else []);
          calls = calls @ [To_csv (os_path_join data_dir ''validation.csv'') False False,
                           To_csv (os_path_join data_dir ''train.csv'') False False];
          prefix = ''boston-xgboost-deploy-hl'';
          calls = calls @ [Upload_data (os_path_join data_dir ''validation.csv'') prefix,
                           Upload_data (os_path_join data_dir ''train.csv'') prefix];
          container = (boto_region_name w, ''xgboost'', ''0.90-1'');
          calls = calls @ [Get_image_uri (boto_region_name w) ''xgboost'' ''0.90-1'',
                           Estimator container 1 ''ml.p2.xlarge''
                             (''s3://'' @ default_bucket w @ ''/'' @ prefix @ ''/output'')];
          calls = calls @ [Set_hyperparameters
                            [(''max_depth'', PyInt 5),
                             (''eta'', PyFloat ''0.2''),
                             (''gamma'', PyInt 4),
                             (''min_child_weight'', PyInt 6),
                             (''subsample'', PyFloat ''0.8''),
                             (''objective'', PyStr ''reg:linear''),
                             (''early_stopping_rounds'', PyInt 10),
                             (''num_round'', PyInt 200)]];
          calls = calls @ [S3_input ''csv'', S3_input ''csv'',
                           Fit [(''train'', ''csv''), (''validation'', ''csv'')]];
          xgb_predictor = endpoint;
          calls = calls @ [Deploy endpoint 1 ''ml.t2.medium''];
          calls = calls @ [Predict xgb_predictor ''text/csv'', Fromstring];
          calls = calls @ [Pyplot ''scatter'', Pyplot ''xlabel'', Pyplot ''ylabel'', Pyplot ''title''];
          calls = calls @ [Delete_endpoint xgb_predictor];
          calls = calls @ [Shell ''rm $data_dir/*'', Shell ''rmdir $data_dir'']
      in calls)"

text \<open>
  The calls of the low-level notebook, cell by cell, as a run makes them when no call
  raises; the calls of every run are an initial part of this list, as for the
  high-level notebook. \<open>now1\<close>, \<open>now2\<close> and \<open>now3\<close> are the
  readings of the clock in the three cells that build a name. \<open>model_name\<close> is
  assigned twice, as in the notebook: from the training job's name before the model
  is created, and to a fixed text in a cell of its own before the endpoint
  configuration is created.
\<close>

definition ll_notebook :: "world \<Rightarrow> struct_time \<Rightarrow> struct_time \<Rightarrow> struct_time \<Rightarrow> call list" where
  "ll_notebook w now1 now2 now3 =
     (let calls = [Session, Get_execution_role];
          calls = calls @ [Load_boston];
          calls = calls @ [DataFrame, DataFrame,
                           Train_test_split ll_split_args, Train_test_split ll_split_args];
          calls = calls @ [Path_exists data_dir]
                        @ (if \<not> path_exists (local_fs w) data_dir then [Makedirs data_dir] else []);
          calls = calls @ [To_csv (os_path_join data_dir ''validation.csv'') False False,
                           To_csv (os_path_join data_dir ''train.csv'') False False];
          prefix = ''boston-xgboost-deploy-ll'';
          calls = calls @ [Upload_data (os_path_join data_dir ''validation.csv'') prefix,
                           Upload_data (os_path_join data_dir ''train.csv'') prefix];
          container = (boto_region_name w, ''xgboost'', ''0.90-1'');
          calls = calls @ [Get_image_uri (boto_region_name w) ''xgboost'' ''0.90-1''];
          training_job_name = ''boston-xgboost-'' @ timestamp now1;
          training_params =
            \<lparr>TrainingJobName = training_job_name,
             TrainingImage = container,
             S3OutputPath = ''s3://'' @ default_bucket w @ ''/'' @ prefix @ ''/output'',
             InstanceCount = 1,
             InstanceType = ''ml.m4.xlarge'',
             VolumeSizeInGB = 5,
             MaxRuntimeInSeconds = 86400,
             HyperParameters =
               [(''max_depth'', ''5''),
                (''eta'', ''0.2''),
                (''gamma'', ''4''),
                (''min_child_weight'', ''6''),
                (''subsample'', ''0.8''),
                (''objective'', ''reg:linear''),
                (''early_stopping_rounds'', ''10''),
                (''num_round'', ''200'')],
             InputDataConfig = [(''train'', ''csv''), (''validation'', ''csv'')]\<rparr>;
          calls = calls @ [Create_training_job training_params];
          calls = calls @ [Logs_for_job training_job_name];
          calls = calls @ [Describe_training_job training_job_name];
          model_name = training_job_name @ ''-model'';
          calls = calls @ [Create_model model_name container];
          model_name = ''boston-xgboost-2019-11-09-14-20-03-model'';
          endpoint_config_name = ''boston-xgboost-endpoint-config-'' @ timestamp now2;
          calls = calls @ [Create_endpoint_config endpoint_config_name model_name 1 ''ml.m4.xlarge''];
          endpoint_name = ''boston-xgboost-endpoint-'' @ timestamp now3;
          calls = calls @ [Create_endpoint endpoint_name endpoint_config_name];
          calls = calls @ [Wait_for_endpoint endpoint_name];
          calls = calls @ [Build_payload];
          calls = calls @ [Invoke_endpoint endpoint_name ''text/csv'', Fromstring];
          calls = calls @ [Pyplot ''scatter'', Pyplot ''xlabel'', Pyplot ''ylabel'', Pyplot ''title''];
          calls = calls @ [Delete_endpoint endpoint_name];
          calls = calls @ [Shell ''rm $data_dir/*'', Shell ''rmdir $data_dir'']
      in calls)"

subsection \<open>The steps of the pipeline\<close>

datatype step =
  Load_data | Split | Serialize | Upload | Training | Deployment | Inference | Plot | Teardown

text \<open>The step a call belongs to, after the headings of the notebooks. Getting
  the session and the role is the notebook's set-up and belongs to no step. Building
  the request body in memory belongs to the invocation it is built for, and removing
  the local files in the last cell belongs to the teardown.\<close>

fun step_of :: "call \<Rightarrow> step option" where
  "step_of Session = None"
| "step_of Get_execution_role = None"
| "step_of Load_boston = Some Load_data"
| "step_of DataFrame = Some Split"
| "step_of (Train_test_split _) = Some Split"
| "step_of (Path_exists _) = Some Serialize"
| "step_of (Makedirs _) = Some Serialize"
| "step_of (To_csv _ _ _) = Some Serialize"
| "step_of (Upload_data _ _) = Some Upload"
| "step_of (Get_image_uri _ _ _) = Some Training"
| "step_of (Estimator _ _ _ _) = Some Training"
| "step_of (Set_hyperparameters _) = Some Training"
| "step_of (S3_input _) = Some Training"
| "step_of (Fit _) = Some Training"
| "step_of (Create_training_job _) = Some Training"
| "step_of (Logs_for_job _) = Some Training"
| "step_of (Describe_training_job _) = Some Training"
| "step_of (Create_model _ _) = Some Training"
| "step_of (Deploy _ _ _) = Some Deployment"
| "step_of (Create_endpoint_config _ _ _ _) = Some Deployment"
| "step_of (Create_endpoint _ _) = Some Deployment"
| "step_of (Wait_for_endpoint _) = Some Deployment"
| "step_of (Predict _ _) = Some Inference"
| "step_of Build_payload = Some Inference"
| "step_of (Invoke_endpoint _ _) = Some Inference"
| "step_of Fromstring = Some Inference"
| "step_of (Pyplot _) = Some Plot"
| "step_of (Delete_endpoint _) = Some Teardown"
| "step_of (Shell _) = Some Teardown"

definition is_setup :: "call \<Rightarrow> bool" where
  "is_setup c = (step_of c = None)"

text \<open>The steps of a run in the order they are entered: the step of each call
  that has one, a run of neighbouring calls of the same step counted once. A step
  that is left and entered again shows twice.\<close>

definition steps :: "call list \<Rightarrow> step list" where
  "steps calls = remdups_adj (List.map_filter step_of calls)"

text \<open>The set-up comes first: once a call of a step is made, no set-up call follows.\<close>

definition setup_first :: "call list \<Rightarrow> bool" where
  "setup_first calls = list_all (\<lambda>c. \<not> is_setup c) (dropWhile is_setup calls)"

definition pipeline :: "step list" where
  "pipeline = [Load_data, Split, Serialize, Upload, Training, Deployment, Inference, Plot, Teardown]"

subsection \<open>The life of an endpoint\<close>

datatype endpoint_event = Created string | Invoked string | Deleted string

text \<open>Which calls create, invoke or delete an endpoint, and which one. The
  predictor's methods act on the endpoint the predictor is bound to.\<close>

fun endpoint_event_of :: "call \<Rightarrow> endpoint_event option" where
  "endpoint_event_of (Deploy endpoint _ _) = Some (Created endpoint)"
| "endpoint_event_of (Create_endpoint endpoint_name _) = Some (Created endpoint_name)"
| "endpoint_event_of (Predict endpoint _) = Some (Invoked endpoint)"
| "endpoint_event_of (Invoke_endpoint endpoint_name _) = Some (Invoked endpoint_name)"
| "endpoint_event_of (Delete_endpoint endpoint_name) = Some (Deleted endpoint_name)"
| "endpoint_event_of _ = None"

definition endpoint_events :: "call list \<Rightarrow> endpoint_event list" where
  "endpoint_events calls = List.map_filter endpoint_event_of calls"

subsection \<open>The names of the remote resources\<close>

datatype resource = Training_job string | Model string | Endpoint_config string | Endpoint string

text \<open>The resources a call asks the platform to create under a name the caller chose.\<close>

fun created_by :: "call \<Rightarrow> resource option" where
  "created_by (Create_training_job params) = Some (Training_job (TrainingJobName params))"
| "created_by (Create_model model_name _) = Some (Model model_name)"
| "created_by (Create_endpoint_config endpoint_config_name _ _ _) = Some (Endpoint_config endpoint_config_name)"
| "created_by (Create_endpoint endpoint_name _) = Some (Endpoint endpoint_name)"
| "created_by _ = None"

definition created :: "call list \<Rightarrow> resource list" where
  "created calls = List.map_filter created_by calls"

subsection \<open>What a notebook configures\<close>

datatype setting =
    Algorithm string string
  | Hyperparameters "(string \<times> string) list"
  | Channels "(string \<times> string) list"
  | Csv_options bool bool
  | Test_size string
  | Seed "nat option"
  | Training_count nat
  | Training_type string
  | Training_volume nat
  | Training_max_run nat
  | Endpoint_count nat
  | Endpoint_type string
  | Key_prefix string

text \<open>The settings a call carries, whichever layer of the client library it
  belongs to. Hyperparameters are compared as the texts that are sent.\<close>

fun settings_of :: "call \<Rightarrow> setting list" where
  "settings_of (Train_test_split args) = [Test_size (test_size args), Seed (random_state args)]"
| "settings_of (To_csv _ header index) = [Csv_options header index]"
| "settings_of (Upload_data _ key_prefix) = [Key_prefix key_prefix]"
| "settings_of (Get_image_uri _ algorithm version) = [Algorithm algorithm version]"
| "settings_of (Estimator _ train_instance_count train_instance_type _) =
     [Training_count train_instance_count, Training_type train_instance_type]"
| "settings_of (Set_hyperparameters kvs) = [Hyperparameters (map (\<lambda>(k, v). (k, py_str v)) kvs)]"
| "settings_of (Fit channels) = [Channels channels]"
| "settings_of (Create_training_job params) =
     [Training_count (InstanceCount params), Training_type (InstanceType params),
      Training_volume (VolumeSizeInGB params), Training_max_run (MaxRuntimeInSeconds params),
      Hyperparameters (HyperParameters params), Channels (InputDataConfig params)]"
| "settings_of (Deploy _ initial_instance_count instance_type) =
     [Endpoint_count initial_instance_count, Endpoint_type instance_type]"
| "settings_of (Create_endpoint_config _ _ initial_instance_count instance_type) =
     [Endpoint_count initial_instance_count, Endpoint_type instance_type]"
| "settings_of _ = []"

definition settings :: "call list \<Rightarrow> setting list" where
  "settings calls = concat (map settings_of calls)"

text \<open>The settings that name the container and algorithm, the hyperparameters and
  data channels, the CSV preparation and the size of the split, and the number of
  instances for training and for the endpoint.\<close>

fun common_kind :: "setting \<Rightarrow> bool" where
  "common_kind (Algorithm _ _) = True"
| "common_kind (Hyperparameters _) = True"
| "common_kind (Channels _) = True"
| "common_kind (Csv_options _ _) = True"
| "common_kind (Test_size _) = True"
| "common_kind (Training_count _) = True"
| "common_kind (Endpoint_count _) = True"
| "common_kind _ = False"

fun is_seed :: "setting \<Rightarrow> bool" where
  "is_seed (Seed _) = True"
| "is_seed _ = False"

section \<open>Running a notebook\<close>

text \<open>
  A notebook is a list of cells and a cell a list of statements. The statements of
  the two notebooks are calls, assignments and one guarded call. A call or an
  assignment reads variables; reading a variable that is not bound raises
  \<^verbatim>\<open>NameError\<close>. A variable holds a text (a name, a prefix, a path); the values the
  properties below do not look into (frames, sessions, responses) are kept as the
  empty text. An assignment of the result of a call is the call followed by the
  assignment, so that a call that raises leaves the variable as it was.
\<close>

datatype exn = NameError string | Raised call

datatype stmt =
    Call "string list" "(string \<Rightarrow> string) \<Rightarrow> call"
  | Assign string "string list" "(string \<Rightarrow> string) \<Rightarrow> string"
  | If_not_exists string stmt

text \<open>
  The state of a run: the local file system, the variables, the calls made so far
  and, once a statement has raised, the exception that stopped the run.
\<close>

record run_state =
  files :: filesystem
  vars :: "string \<rightharpoonup> string"
  made :: "call list"
  stopped :: "exn option"

definition value_of :: "(string \<rightharpoonup> string) \<Rightarrow> string \<Rightarrow> string" where
  "value_of env x = (case env x of None \<Rightarrow> [] | Some v \<Rightarrow> v)"

definition first_unbound :: "(string \<rightharpoonup> string) \<Rightarrow> string list \<Rightarrow> string option" where
  "first_unbound env reads = find (\<lambda>x. env x = None) reads"

text \<open>
  What a call does to the local file system, or the error it raises there:
  \<^verbatim>\<open>os.makedirs\<close> and the opening of the file by \<^verbatim>\<open>to_csv\<close>. The other calls
  do not depend on the local file system.
\<close>

fun effect :: "filesystem \<Rightarrow> call \<Rightarrow> os_error + filesystem" where
  "effect fs (Makedirs p) = makedirs fs p"
| "effect fs (To_csv p _ _) = open_for_writing fs p"
| "effect fs _ = Inr fs"

text \<open>
  \<^verbatim>\<open>os.path.exists\<close> returns false instead of raising, and a shell escape of
  the notebook (\<^verbatim>\<open>!rm\<close>, \<^verbatim>\<open>!rmdir\<close>) reports a failure without raising. Every
  other call may raise for reasons outside the notebook (the platform refuses, the
  network fails): whether it does is given by \<open>raises\<close>, from the calls made so
  far and the call.
\<close>

fun can_raise :: "call \<Rightarrow> bool" where
  "can_raise (Path_exists _) = False"
| "can_raise (Shell _) = False"
| "can_raise _ = True"

type_synonym outcome = "call list \<Rightarrow> call \<Rightarrow> bool"

definition make_call :: "outcome \<Rightarrow> call \<Rightarrow> run_state \<Rightarrow> run_state" where
  "make_call raises c st =
     (case effect (files st) c of
        Inl e \<Rightarrow> st\<lparr>made := made st @ [c], stopped := Some (Raised c)\<rparr>
      | Inr fs \<Rightarrow>
          if can_raise c \<and> raises (made st) c
          then st\<lparr>made := made st @ [c], stopped := Some (Raised c)\<rparr>
          else st\<lparr>files := fs, made := made st @ [c]\<rparr>)"

text \<open>Nothing runs once the run has stopped. The guard is
  \<^verbatim>\<open>if not os.path.exists(x): body\<close>.\<close>

fun exec_stmt :: "outcome \<Rightarrow> stmt \<Rightarrow> run_state \<Rightarrow> run_state" where
  "exec_stmt raises (Call reads c) st =
     (if stopped st \<noteq> None then st
      else case first_unbound (vars st) reads of
             Some x \<Rightarrow> st\<lparr>stopped := Some (NameError x)\<rparr>
           | None \<Rightarrow> make_call raises (c (value_of (vars st))) st)"
| "exec_stmt raises (Assign x reads e) st =
     (if stopped st \<noteq> None then st
      else case first_unbound (vars st) reads of
             Some y \<Rightarrow> st\<lparr>stopped := Some (NameError y)\<rparr>
           | None \<Rightarrow> st\<lparr>vars := (vars st)(x \<mapsto> e (value_of (vars st)))\<rparr>)"
| "exec_stmt raises (If_not_exists x body) st =
     (if stopped st \<noteq> None then st
      else case first_unbound (vars st) [x] of
             Some y \<Rightarrow> st\<lparr>stopped := Some (NameError y)\<rparr>
           | None \<Rightarrow>
               (let st' = make_call raises (Path_exists (value_of (vars st) x)) st
                in if \<not> path_exists (files st') (value_of (vars st) x)
                   then exec_stmt raises body st'
                   else st'))"

text \<open>Run as a script, the cells of a notebook are run once each from the first
  to the last, and the run ends with the first statement that raises.\<close>

definition run_cell :: "outcome \<Rightarrow> stmt list \<Rightarrow> run_state \<Rightarrow> run_state" where
  "run_cell raises cell st = fold (exec_stmt raises) cell st"

definition run_all :: "outcome \<Rightarrow> stmt list list \<Rightarrow> run_state \<Rightarrow> run_state" where
  "run_all raises cells st = fold (run_cell raises) cells st"

definition initial :: "world \<Rightarrow> run_state" where
  "initial w = \<lparr>files = local_fs w, vars = Map.empty, made = [], stopped = None\<rparr>"

definition never :: outcome where
  "never = (\<lambda>calls c. False)"

text \<open>A variable bound to a value that is not looked into.\<close>

definition opaque :: "string \<Rightarrow> stmt" where
  "opaque x = Assign x [] (\<lambda>v. [])"

subsection \<open>The cells of the high-level notebook\<close>

text \<open>
  One list per code cell, in the order of the file; the first cell only imports
  modules. \<open>endpoint\<close> is the name the client library gives the endpoint that
  \<^verbatim>\<open>deploy\<close> creates, and the predictor it returns is bound to that name.
\<close>

definition hl_cells :: "world \<Rightarrow> string \<Rightarrow> stmt list list" where
  "hl_cells w endpoint =
     [[],
      [Call [] (\<lambda>v. Session), opaque ''session'',
       Call [] (\<lambda>v. Get_execution_role), opaque ''role''],
      [Call [] (\<lambda>v. Load_boston), opaque ''boston''],
      [Call [''boston''] (\<lambda>v. DataFrame), opaque ''X_bos_pd'',
       Call [''boston''] (\<lambda>v. DataFrame), opaque ''Y_bos_pd'',
       Call [''X_bos_pd'', ''Y_bos_pd''] (\<lambda>v. Train_test_split hl_split_args),
       opaque ''X_train'', opaque ''X_test'', opaque ''Y_train'', opaque ''Y_test'',
       Call [''X_train'', ''Y_train''] (\<lambda>v. Train_test_split hl_split_args),
       opaque ''X_train'', opaque ''X_val'', opaque ''Y_train'', opaque ''Y_val''],
      [Assign ''data_dir'' [] (\<lambda>v. ''../data/boston''),
       If_not_exists ''data_dir'' (Call [''data_dir''] (\<lambda>v. Makedirs (v ''data_dir'')))],
      [Call [''Y_val'', ''X_val'', ''data_dir'']
         (\<lambda>v. To_csv (os_path_join (v ''data_dir'') ''validation.csv'') False False),
       Call [''Y_train'', ''X_train'', ''data_dir'']
         (\<lambda>v. To_csv (os_path_join (v ''data_dir'') ''train.csv'') False False)],
      [Assign ''prefix'' [] (\<lambda>v. ''boston-xgboost-deploy-hl''),
       Call [''session'', ''data_dir'', ''prefix'']
         (\<lambda>v. Upload_data (os_path_join (v ''data_dir'') ''validation.csv'') (v ''prefix'')),
       opaque ''val_location'',
       Call [''session'', ''data_dir'', ''prefix'']
         (\<lambda>v. Upload_data (os_path_join (v ''data_dir'') ''train.csv'') (v ''prefix'')),
       opaque ''train_location''],
      [Call [''session''] (\<lambda>v. Get_image_uri (boto_region_name w) ''xgboost'' ''0.90-1''),
       opaque ''container'',
       Call [''container'', ''role'', ''session'', ''prefix'']
         (\<lambda>v. Estimator (boto_region_name w, ''xgboost'', ''0.90-1'') 1 ''ml.p2.xlarge''
                 (''s3://'' @ default_bucket w @ ''/'' @ v ''prefix'' @ ''/output'')),
       opaque ''xgb''],
      [Call [''xgb'']
         (\<lambda>v. Set_hyperparameters
                 [(''max_depth'', PyInt 5),
                  (''eta'', PyFloat ''0.2''),
                  (''gamma'', PyInt 4),
                  (''min_child_weight'', PyInt 6),
                  (''subsample'', PyFloat ''0.8''),
                  (''objective'', PyStr ''reg:linear''),
                  (''early_stopping_rounds'', PyInt 10),
                  (''num_round'', PyInt 200)])],
      [Call [''train_location''] (\<lambda>v. S3_input ''csv''), opaque ''s3_input_train'',
       Call [''val_location''] (\<lambda>v. S3_input ''csv''), opaque ''s3_input_validation'',
       Call [''xgb'', ''s3_input_train'', ''s3_input_validation'']
         (\<lambda>v. Fit [(''train'', ''csv''), (''validation'', ''csv'')])],
      [Call [''xgb''] (\<lambda>v. Deploy endpoint 1 ''ml.t2.medium''),
       Assign ''xgb_predictor'' [] (\<lambda>v. endpoint)],
      [Assign ''xgb_predictor'' [''xgb_predictor''] (\<lambda>v. v ''xgb_predictor''),
       Assign ''xgb_predictor'' [''xgb_predictor''] (\<lambda>v. v ''xgb_predictor''),
       Call [''xgb_predictor'', ''X_test''] (\<lambda>v. Predict (v ''xgb_predictor'') ''text/csv''),
       opaque ''Y_pred'',
       Call [''Y_pred''] (\<lambda>v. Fromstring), opaque ''Y_pred''],
      [Call [''Y_test'', ''Y_pred''] (\<lambda>v. Pyplot ''scatter''),
       Call [] (\<lambda>v. Pyplot ''xlabel''),
       Call [] (\<lambda>v. Pyplot ''ylabel''),
       Call [] (\<lambda>v. Pyplot ''title'')],
      [Call [''xgb_predictor''] (\<lambda>v. Delete_endpoint (v ''xgb_predictor''))],
      [Call [] (\<lambda>v. Shell ''rm $data_dir/*''),
       Call [] (\<lambda>v. Shell ''rmdir $data_dir'')],
      []]"

definition hl_run :: "outcome \<Rightarrow> world \<Rightarrow> string \<Rightarrow> run_state" where
  "hl_run raises w endpoint = run_all raises (hl_cells w endpoint) (initial w)"

subsection \<open>The cells of the low-level notebook\<close>

text \<open>
  One list per code cell, in the order of the file. \<open>now1\<close>, \<open>now2\<close> and
  \<open>now3\<close> are what \<^verbatim>\<open>gmtime()\<close> returns in the three cells that build a name.
  The dict of training parameters is filled over two cells and is complete when
  \<^verbatim>\<open>create_training_job\<close> is called with it.
\<close>

definition ll_cells ::
  "world \<Rightarrow> struct_time \<Rightarrow> struct_time \<Rightarrow> struct_time \<Rightarrow> stmt list list" where
  "ll_cells w now1 now2 now3 =
     [[],
      [Call [] (\<lambda>v. Session), opaque ''session'',
       Call [] (\<lambda>v. Get_execution_role), opaque ''role''],
      [Call [] (\<lambda>v. Load_boston), opaque ''boston''],
      [Call [''boston''] (\<lambda>v. DataFrame), opaque ''X_bos_pd'',
       Call [''boston''] (\<lambda>v. DataFrame), opaque ''Y_bos_pd'',
       Call [''X_bos_pd'', ''Y_bos_pd''] (\<lambda>v. Train_test_split ll_split_args),
       opaque ''X_train'', opaque ''X_test'', opaque ''Y_train'', opaque ''Y_test'',
       Call [''X_train'', ''Y_train''] (\<lambda>v. Train_test_split ll_split_args),
       opaque ''X_train'', opaque ''X_val'', opaque ''Y_train'', opaque ''Y_val''],
      [Assign ''data_dir'' [] (\<lambda>v. ''../data/boston''),
       If_not_exists ''data_dir'' (Call [''data_dir''] (\<lambda>v. Makedirs (v ''data_dir'')))],
      [Call [''Y_val'', ''X_val'', ''data_dir'']
         (\<lambda>v. To_csv (os_path_join (v ''data_dir'') ''validation.csv'') False False),
       Call [''Y_train'', ''X_train'', ''data_dir'']
         (\<lambda>v. To_csv (os_path_join (v ''data_dir'') ''train.csv'') False False)],
      [Assign ''prefix'' [] (\<lambda>v. ''boston-xgboost-deploy-ll''),
       Call [''session'', ''data_dir'', ''prefix'']
         (\<lambda>v. Upload_data (os_path_join (v ''data_dir'') ''validation.csv'') (v ''prefix'')),
       opaque ''val_location'',
       Call [''session'', ''data_dir'', ''prefix'']
         (\<lambda>v. Upload_data (os_path_join (v ''data_dir'') ''train.csv'') (v ''prefix'')),
       opaque ''train_location''],
      [Call [''session''] (\<lambda>v. Get_image_uri (boto_region_name w) ''xgboost'' ''0.90-1''),
       opaque ''container'',
       Assign ''training_params'' [''role'', ''container'', ''session'', ''prefix'',
                                    ''train_location'', ''val_location''] (\<lambda>v. [])],
      [Assign ''training_job_name'' [] (\<lambda>v. ''boston-xgboost-'' @ timestamp now1),
       Assign ''training_params'' [''training_params'', ''training_job_name''] (\<lambda>v. []),
       Call [''session'', ''training_params'', ''training_job_name'', ''prefix'']
         (\<lambda>v. Create_training_job
                 \<lparr>TrainingJobName = v ''training_job_name'',
                  TrainingImage = (boto_region_name w, ''xgboost'', ''0.90-1''),
                  S3OutputPath = ''s3://'' @ default_bucket w @ ''/'' @ v ''prefix'' @ ''/output'',
                  InstanceCount = 1,
                  InstanceType = ''ml.m4.xlarge'',
                  VolumeSizeInGB = 5,
                  MaxRuntimeInSeconds = 86400,
                  HyperParameters =
                    [(''max_depth'', ''5''),
                     (''eta'', ''0.2''),
                     (''gamma'', ''4''),
                     (''min_child_weight'', ''6''),
                     (''subsample'', ''0.8''),
                     (''objective'', ''reg:linear''),
                     (''early_stopping_rounds'', ''10''),
                     (''num_round'', ''200'')],
                  InputDataConfig = [(''train'', ''csv''), (''validation'', ''csv'')]\<rparr>),
       opaque ''training_job''],
      [Call [''session'', ''training_job_name''] (\<lambda>v. Logs_for_job (v ''training_job_name''))],
      [Call [''session'', ''training_job_name'']
         (\<lambda>v. Describe_training_job (v ''training_job_name'')),
       opaque ''training_job_info'',
       Assign ''model_artifacts'' [''training_job_info''] (\<lambda>v. [])],
      [Assign ''model_name'' [''training_job_name''] (\<lambda>v. v ''training_job_name'' @ ''-model''),
       Assign ''primary_container'' [''container'', ''model_artifacts''] (\<lambda>v. []),
       Call [''session'', ''model_name'', ''role'', ''primary_container'']
         (\<lambda>v. Create_model (v ''model_name'') (boto_region_name w, ''xgboost'', ''0.90-1'')),
       opaque ''model_info''],
      [Assign ''model_name'' [] (\<lambda>v. ''boston-xgboost-2019-11-09-14-20-03-model'')],
      [Assign ''endpoint_config_name'' []
         (\<lambda>v. ''boston-xgboost-endpoint-config-'' @ timestamp now2),
       Call [''session'', ''endpoint_config_name'', ''model_name'']
         (\<lambda>v. Create_endpoint_config (v ''endpoint_config_name'') (v ''model_name'') 1
                 ''ml.m4.xlarge''),
       opaque ''endpoint_config_info''],
      [Assign ''endpoint_name'' [] (\<lambda>v. ''boston-xgboost-endpoint-'' @ timestamp now3),
       Call [''session'', ''endpoint_name'', ''endpoint_config_name'']
         (\<lambda>v. Create_endpoint (v ''endpoint_name'') (v ''endpoint_config_name'')),
       opaque ''endpoint_info''],
      [Call [''session'', ''endpoint_name''] (\<lambda>v. Wait_for_endpoint (v ''endpoint_name'')),
       opaque ''endpoint_dec''],
      [Call [''X_test''] (\<lambda>v. Build_payload), opaque ''payload'',
       Assign ''payload'' [''payload''] (\<lambda>v. [])],
      [Call [''session'', ''endpoint_name'', ''payload'']
         (\<lambda>v. Invoke_endpoint (v ''endpoint_name'') ''text/csv''),
       opaque ''response'',
       Assign ''result'' [''response''] (\<lambda>v. []),
       Call [''result''] (\<lambda>v. Fromstring), opaque ''Y_pred''],
      [Call [''Y_test'', ''Y_pred''] (\<lambda>v. Pyplot ''scatter''),
       Call [] (\<lambda>v. Pyplot ''xlabel''),
       Call [] (\<lambda>v. Pyplot ''ylabel''),
       Call [] (\<lambda>v. Pyplot ''title'')],
      [Call [''session'', ''endpoint_name''] (\<lambda>v. Delete_endpoint (v ''endpoint_name''))],
      [Call [] (\<lambda>v. Shell ''rm $data_dir/*''),
       Call [] (\<lambda>v. Shell ''rmdir $data_dir'')],
      []]"

definition ll_run ::
  "outcome \<Rightarrow> world \<Rightarrow> struct_time \<Rightarrow> struct_time \<Rightarrow> struct_time \<Rightarrow> run_state" where
  "ll_run raises w now1 now2 now3 = run_all raises (ll_cells w now1 now2 now3) (initial w)"

subsection \<open>The work of a step\<close>

text \<open>
  The calls that do the work of a step, as opposed to the calls that prepare it:
  loading the dataset, splitting, writing a CSV file, uploading a file, fitting or
  creating the training job and the model, deploying or creating the endpoint
  configuration and the endpoint, invoking the endpoint, plotting, deleting the
  endpoint.
\<close>

fun work_of :: "call \<Rightarrow> step option" where
  "work_of Load_boston = Some Load_data"
| "work_of (Train_test_split _) = Some Split"
| "work_of (To_csv _ _ _) = Some Serialize"
| "work_of (Upload_data _ _) = Some Upload"
| "work_of (Fit _) = Some Training"
| "work_of (Create_training_job _) = Some Training"
| "work_of (Create_model _ _) = Some Training"
| "work_of (Deploy _ _ _) = Some Deployment"
| "work_of (Create_endpoint_config _ _ _ _) = Some Deployment"
| "work_of (Create_endpoint _ _) = Some Deployment"
| "work_of (Predict _ _) = Some Inference"
| "work_of (Invoke_endpoint _ _) = Some Inference"
| "work_of (Pyplot _) = Some Plot"
| "work_of (Delete_endpoint _) = Some Teardown"
| "work_of _ = None"

definition work :: "call list \<Rightarrow> step list" where
  "work calls = List.map_filter work_of calls"

text \<open>The work of a complete run of the high-level and of the low-level notebook.\<close>

definition hl_work :: "step list" where
  "hl_work = [Load_data, Split, Split, Serialize, Serialize, Upload, Upload, Training,
              Deployment, Inference, Plot, Plot, Plot, Plot, Teardown]"

definition ll_work :: "step list" where
  "ll_work = [Load_data, Split, Split, Serialize, Serialize, Upload, Upload, Training,
              Training, Deployment, Deployment, Inference, Plot, Plot, Plot, Plot, Teardown]"

subsection \<open>Reading a time stamp\<close>

text \<open>
  The time a stamp of the form \<^verbatim>\<open>YYYY-mm-dd-HH-MM-SS\<close> stands for: six groups of
  decimal digits between dashes, four digits for the year and two for each of the
  others.
\<close>

definition digit_value :: "char \<Rightarrow> nat option" where
  "digit_value c = map_of (zip ''0123456789'' [0, 1, 2, 3, 4, 5, 6, 7, 8, 9]) c"

definition decimal_step :: "nat option \<Rightarrow> char \<Rightarrow> nat option" where
  "decimal_step acc c =
     (case acc of
        None \<Rightarrow> None
      | Some a \<Rightarrow> (case digit_value c of None \<Rightarrow> None | Some d \<Rightarrow> Some (10 * a + d)))"

definition decimal_value :: "string \<Rightarrow> nat option" where
  "decimal_value s = (if s = [] then None else foldl decimal_step (Some 0) s)"

definition read_timestamp :: "string \<Rightarrow> struct_time option" where
  "read_timestamp s =
     (let groups = str_split CHR ''-'' s in
      if map length groups = [4, 2, 2, 2, 2, 2]
      then (case map decimal_value groups of
              [Some y, Some m, Some d, Some H, Some M, Some S] \<Rightarrow>
                Some \<lparr>tm_year = y, tm_mon = m, tm_mday = d, tm_hour = H, tm_min = M, tm_sec = S\<rparr>
            | _ \<Rightarrow> None)
      else None)"

text \<open>The ranges of the fields that \<^verbatim>\<open>gmtime()\<close> returns, for a year of four
  digits.\<close>

definition gmtime_range :: "struct_time \<Rightarrow> bool" where
  "gmtime_range t =
     (1000 \<le> tm_year t \<and> tm_year t \<le> 9999 \<and> 1 \<le> tm_mon t \<and> tm_mon t \<le> 12
      \<and> 1 \<le> tm_mday t \<and> tm_mday t \<le> 31 \<and> tm_hour t \<le> 23 \<and> tm_min t \<le> 59
      \<and> tm_sec t \<le> 61)"

text \<open>The models that endpoint configurations refer to.\<close>

fun model_of_config :: "call \<Rightarrow> string option" where
  "model_of_config (Create_endpoint_config _ model_name _ _) = Some model_name"
| "model_of_config _ = None"

definition served_models :: "call list \<Rightarrow> string list" where
  "served_models calls = List.map_filter model_of_config calls"

section \<open>Properties of the text helpers\<close>

lemma str_split_no_sep: "c \<notin> set w \<Longrightarrow> str_split c w = [w]"
  by (induction w) auto

lemma str_split_append_sep:
  "c \<notin> set w \<Longrightarrow> str_split c (w @ c # rest) = w # str_split c rest"
  by (induction w) auto

lemma str_split_join:
  "parts \<noteq> [] \<Longrightarrow> \<forall>w \<in> set parts. c \<notin> set w \<Longrightarrow>
     str_split c (str_join [c] parts) = parts"
proof (induction "[c]" parts rule: str_join.induct)
  case 1
  then show ?case by simp
next
  case (2 x)
  then show ?case by (simp add: str_split_no_sep)
next
  case (3 x y ys)
  then show ?case by (simp add: str_split_append_sep)
qed

lemma str_join_avoids:
  "\<forall>w \<in> set parts. d \<notin> set w \<Longrightarrow> d \<notin> set sep \<Longrightarrow> d \<notin> set (str_join sep parts)"
  by (induction sep parts rule: str_join.induct) auto

lemma str_split_lines:
  "\<forall>l \<in> set ls. c \<notin> set l \<Longrightarrow>
     str_split c (concat (map (\<lambda>l. l @ [c]) ls)) = ls @ [[]]"
  by (induction ls) (auto simp: str_split_append_sep)

lemma comma_newline: "comma \<noteq> newline"
  by (simp add: comma_def newline_def)

section \<open>The payload of the low-level notebook\<close>

text \<open>
  Claim C8, as far as it holds. For a test matrix with at least one row and at least
  one entry in every row, whose entries' texts hold neither a comma nor a newline,
  splitting the payload on newlines and then on commas gives back the text of every
  entry, row by row and in order; and a matrix without rows is serialised as the
  empty text.
\<close>

theorem payload_round_trip:
  assumes rows: "X \<noteq> []"
    and cols: "\<forall>row \<in> set X. row \<noteq> []"
    and clean: "\<forall>row \<in> set X. \<forall>entry \<in> set row. comma \<notin> set (str entry) \<and> newline \<notin> set (str entry)"
  shows "unpayload (payload str X) = map (map str) X \<and> payload str [] = []"
proof -
  let ?lines = "map (str_join [comma]) (map (map str) X)"
  have no_nl: "\<forall>l \<in> set ?lines. newline \<notin> set l"
  proof
    fix l assume "l \<in> set ?lines"
    then obtain row where row: "row \<in> set X" and l: "l = str_join [comma] (map str row)"
      by auto
    have "\<forall>w \<in> set (map str row). newline \<notin> set w"
      using clean row by auto
    moreover have "newline \<notin> set [comma]"
      using comma_newline by simp
    ultimately show "newline \<notin> set l"
      unfolding l by (rule str_join_avoids)
  qed
  have "?lines \<noteq> []" using rows by simp
  then have "str_split newline (str_join [newline] ?lines) = ?lines"
    using no_nl by (rule str_split_join)
  moreover have "map (str_split comma) ?lines = map (map str) X"
  proof -
    have "str_split comma (str_join [comma] (map str row)) = map str row" if "row \<in> set X" for row
      using that cols clean by (intro str_split_join) auto
    then show ?thesis by simp
  qed
  ultimately have "unpayload (payload str X) = map (map str) X"
    by (simp add: unpayload_def payload_def)
  moreover have "payload str [] = []" by (simp add: payload_def)
  ultimately show ?thesis by simp
qed

text \<open>The round trip on a two-by-two matrix of integers.\<close>

theorem payload_round_trip_witness:
  "unpayload (payload str_nat [[5, 2], [30, 4]]) = [[''5'', ''2''], [''30'', ''4'']]"
proof -
  have digits: "str_nat 5 = ''5''" "str_nat 2 = ''2''" "str_nat 30 = ''30''" "str_nat 4 = ''4''"
    by (simp_all add: str_nat.simps digit_char_def)
  show ?thesis
    using payload_round_trip [of "[[5, 2], [30, 4]]" str_nat]
    by (simp add: digits comma_def newline_def)
qed

text \<open>
  The round trip does not hold for every matrix: the payload of a matrix without
  rows is the empty text, and splitting the empty text gives one row with one empty
  entry, not no rows.
\<close>

theorem payload_zero_rows_counterexample:
  "payload id ([] :: string list list) = [] \<and> unpayload (payload id ([] :: string list list)) = [[[]]]
   \<and> unpayload (payload id ([] :: string list list)) \<noteq> map (map id) []"
  by (simp add: unpayload_def payload_def)

section \<open>The parsing of the response\<close>

lemma unsigned_chars: "c \<in> set s \<Longrightarrow> c \<in> set (unsigned s) \<or> c = CHR ''-'' \<or> c = CHR ''+''"
  by (cases s) (auto simp: unsigned_def)

lemma is_decimal_not_empty: "is_decimal t \<Longrightarrow> t \<noteq> []"
  by (auto simp: is_decimal_def unsigned_def)

lemma comma_not_digit: "\<not> is_digit comma" "comma \<noteq> CHR ''.''" "comma \<noteq> CHR ''-''" "comma \<noteq> CHR ''+''"
  by (simp_all add: is_digit_def comma_def)

lemma is_decimal_no_comma:
  assumes dec: "is_decimal t"
  shows "comma \<notin> set t"
proof
  assume "comma \<in> set t"
  then have "comma \<in> set (unsigned t)"
    using unsigned_chars [of comma t] comma_not_digit by blast
  moreover have "\<forall>c \<in> set (unsigned t). is_digit c \<or> c = CHR ''.''"
    using dec by (simp add: is_decimal_def list_all_iff)
  ultimately show False
    using comma_not_digit by blast
qed

lemma str_join_not_empty: "x \<noteq> [] \<Longrightarrow> str_join sep (x # xs) \<noteq> []"
  by (cases xs) auto

text \<open>
  Claim C3. When the response is the texts of decimal numbers joined by commas, the
  parsing step of either notebook returns one number per text, the conversion of
  that text, in the order of the response.
\<close>

theorem fromstring_decimals:
  assumes dec: "\<forall>t \<in> set numbers. is_decimal t"
  shows "hl_parse strtod (str_join [comma] numbers) = map strtod numbers
       \<and> ll_parse strtod (str_join [comma] numbers) = map strtod numbers"
proof -
  have "fromstring strtod (str_join [comma] numbers) comma = map strtod numbers"
  proof (cases numbers)
    case Nil
    then show ?thesis by (simp add: fromstring_def)
  next
    case (Cons t ts)
    then have "str_join [comma] numbers \<noteq> []"
      using dec by (simp add: is_decimal_not_empty str_join_not_empty)
    moreover have "str_split comma (str_join [comma] numbers) = numbers"
      using Cons dec by (intro str_split_join) (auto simp: is_decimal_no_comma)
    ultimately show ?thesis by (simp add: fromstring_def)
  qed
  then show ?thesis by (simp add: hl_parse_def ll_parse_def)
qed

text \<open>A response of three numbers.\<close>

theorem fromstring_decimals_witness:
  "hl_parse id ''24.5,13.25,-7'' = [''24.5'', ''13.25'', ''-7'']
   \<and> ll_parse id ''24.5,13.25,-7'' = [''24.5'', ''13.25'', ''-7'']"
proof -
  have "is_decimal ''24.5''" "is_decimal ''13.25''" "is_decimal ''-7''"
    by (simp_all add: is_decimal_def unsigned_def is_digit_def)
  then show ?thesis
    using fromstring_decimals [of "[''24.5'', ''13.25'', ''-7'']" id]
    by (simp add: comma_def)
qed

section \<open>The CSV files\<close>

lemma csv_records_lines:
  assumes "\<forall>l \<in> set ls. newline \<notin> set l"
  shows "csv_records (concat (map (\<lambda>l. l @ [newline]) ls)) = map (str_split comma) ls"
  using str_split_lines [OF assms] by (simp add: csv_records_def)

lemma to_csv_plain:
  "to_csv fmt df False False =
     concat (map (\<lambda>l. l @ [newline]) (map (\<lambda>row. str_join [comma] (map fmt row)) (map snd (zip (df_index df) (df_values df)))))"
  by (simp add: to_csv_def case_prod_beta comp_def)

lemma csv_records_to_csv:
  assumes wf: "well_formed df"
    and plain: "plain_cells fmt df"
    and ne: "\<forall>row \<in> set (df_values df). row \<noteq> []"
  shows "csv_records (to_csv fmt df False False) = map (map fmt) (df_values df)"
proof -
  let ?lines = "map (\<lambda>row. str_join [comma] (map fmt row)) (df_values df)"
  have rows: "map snd (zip (df_index df) (df_values df)) = df_values df"
    using wf by (simp add: well_formed_def)
  have cells: "comma \<notin> set (fmt v) \<and> newline \<notin> set (fmt v)" if "row \<in> set (df_values df)" "v \<in> set row" for row v
    using plain that by (auto simp: plain_cells_def list_all_iff)
  have "\<forall>l \<in> set ?lines. newline \<notin> set l"
  proof
    fix l assume "l \<in> set ?lines"
    then obtain row where row: "row \<in> set (df_values df)" and l: "l = str_join [comma] (map fmt row)"
      by auto
    have "\<forall>w \<in> set (map fmt row). newline \<notin> set w"
      using cells row by auto
    moreover have "newline \<notin> set [comma]"
      using comma_newline by simp
    ultimately show "newline \<notin> set l"
      unfolding l by (rule str_join_avoids)
  qed
  then have "csv_records (concat (map (\<lambda>l. l @ [newline]) ?lines)) = map (str_split comma) ?lines"
    by (rule csv_records_lines)
  moreover have "map (str_split comma) ?lines = map (map fmt) (df_values df)"
  proof -
    have "str_split comma (str_join [comma] (map fmt row)) = map fmt row" if "row \<in> set (df_values df)" for row
      using that ne cells by (intro str_split_join) auto
    then show ?thesis by simp
  qed
  ultimately show ?thesis
    by (simp add: to_csv_plain rows)
qed

lemma map2_append_elem:
  assumes "row \<in> set (map2 (@) xs ys)"
  shows "\<exists>x y. x \<in> set xs \<and> y \<in> set ys \<and> row = x @ y"
proof -
  obtain x y where xy: "(x, y) \<in> set (zip xs ys)" and row: "row = x @ y"
    using assms by auto
  have "x \<in> set xs" using xy by (rule set_zip_leftD)
  moreover have "y \<in> set ys" using xy by (rule set_zip_rightD)
  ultimately show ?thesis using row by blast
qed

lemma map_fmt_map2:
  "map (map fmt) (map2 (@) ys xs) = map2 (\<lambda>y x. map fmt (y @ x)) ys xs"
  by (simp add: case_prod_beta)

lemma concat_axis1_values:
  assumes "df_index a = df_index b" "well_formed a" "well_formed b" "plain_cells fmt a" "plain_cells fmt b" "single_column a"
  shows "\<exists>df. concat_axis1 a b = Some df \<and> well_formed df \<and> plain_cells fmt df
            \<and> (\<forall>row \<in> set (df_values df). row \<noteq> [])
            \<and> df_values df = map2 (@) (df_values a) (df_values b)"
proof -
  let ?df = "\<lparr>df_columns = df_columns a @ df_columns b, df_index = df_index a,
              df_values = map2 (@) (df_values a) (df_values b)\<rparr>"
  have "concat_axis1 a b = Some ?df"
    using assms(1) by (simp add: concat_axis1_def)
  moreover have "well_formed ?df"
    using assms(1-3) by (simp add: well_formed_def)
  moreover have "plain_cells fmt ?df"
  proof -
    have "comma \<notin> set (fmt v) \<and> newline \<notin> set (fmt v)"
      if row: "row \<in> set (map2 (@) (df_values a) (df_values b))" and v: "v \<in> set row" for row v
    proof -
      obtain x y where "x \<in> set (df_values a)" "y \<in> set (df_values b)" "row = x @ y"
        using map2_append_elem [OF row] by blast
      then show ?thesis
        using v assms(4,5) by (auto simp: plain_cells_def list_all_iff)
    qed
    then show ?thesis
      by (simp add: plain_cells_def list_all_iff)
  qed
  moreover have "\<forall>row \<in> set (df_values ?df). row \<noteq> []"
  proof
    fix row assume "row \<in> set (df_values ?df)"
    then obtain x y where "x \<in> set (df_values a)" "row = x @ y"
      using map2_append_elem [of row "df_values a" "df_values b"] by auto
    then show "row \<noteq> []"
      using assms(6) by (auto simp: single_column_def list_all_iff)
  qed
  ultimately show ?thesis by simp
qed

text \<open>
  Claim C2. The cell that saves the data, the same in both notebooks, writes exactly
  two files, the validation file and the train file. Read back line by line, each
  file has one record per row of the data and nothing else (no header line), and
  each record is the text of the target value followed by the texts of the row's
  features in order (no row label in front). The frames are the halves of one split:
  the target and the features carry the same row labels, and the target has one
  column.
\<close>

theorem save_cell_writes:
  assumes "df_index Y_val = df_index X_val" "df_index Y_train = df_index X_train"
    and "well_formed X_val" "well_formed Y_val" "well_formed X_train" "well_formed Y_train"
    and "plain_cells fmt X_val" "plain_cells fmt Y_val" "plain_cells fmt X_train" "plain_cells fmt Y_train"
    and "single_column Y_val" "single_column Y_train"
  shows "\<exists>val train.
           save_cell fmt X_train Y_train X_val Y_val =
             Some [(''../data/boston/validation.csv'', val), (''../data/boston/train.csv'', train)]
         \<and> csv_records val = map2 (\<lambda>y x. map fmt (y @ x)) (df_values Y_val) (df_values X_val)
         \<and> csv_records train = map2 (\<lambda>y x. map fmt (y @ x)) (df_values Y_train) (df_values X_train)"
proof -
  obtain v where v: "concat_axis1 Y_val X_val = Some v" "well_formed v" "plain_cells fmt v"
      "\<forall>row \<in> set (df_values v). row \<noteq> []" "df_values v = map2 (@) (df_values Y_val) (df_values X_val)"
    using concat_axis1_values [of Y_val X_val fmt] assms by auto
  obtain t where t: "concat_axis1 Y_train X_train = Some t" "well_formed t" "plain_cells fmt t"
      "\<forall>row \<in> set (df_values t). row \<noteq> []" "df_values t = map2 (@) (df_values Y_train) (df_values X_train)"
    using concat_axis1_values [of Y_train X_train fmt] assms by auto
  have "save_cell fmt X_train Y_train X_val Y_val =
          Some [(''../data/boston/validation.csv'', to_csv fmt v False False),
                (''../data/boston/train.csv'', to_csv fmt t False False)]"
    by (simp add: save_cell_def v(1) t(1) os_path_join_def data_dir_def)
  moreover have "csv_records (to_csv fmt v False False) = map2 (\<lambda>y x. map fmt (y @ x)) (df_values Y_val) (df_values X_val)"
    using csv_records_to_csv [OF v(2) v(3) v(4)] by (simp only: v(5) map_fmt_map2)
  moreover have "csv_records (to_csv fmt t False False) = map2 (\<lambda>y x. map fmt (y @ x)) (df_values Y_train) (df_values X_train)"
    using csv_records_to_csv [OF t(2) t(3) t(4)] by (simp only: t(5) map_fmt_map2)
  ultimately show ?thesis by blast
qed


text \<open>A validation set of one row and a train set of two rows, two features each.\<close>

theorem save_cell_writes_witness:
  "\<exists>val train.
     save_cell str_nat
       \<lparr>df_columns = [''CRIM'', ''ZN''], df_index = [4, 9], df_values = [[6, 18], [2, 0]]\<rparr>
       \<lparr>df_columns = [''0''], df_index = [4, 9], df_values = [[24], [21]]\<rparr>
       \<lparr>df_columns = [''CRIM'', ''ZN''], df_index = [7], df_values = [[3, 12]]\<rparr>
       \<lparr>df_columns = [''0''], df_index = [7], df_values = [[27]]\<rparr>
       = Some [(''../data/boston/validation.csv'', val), (''../data/boston/train.csv'', train)]
     \<and> csv_records val = [[''27'', ''3'', ''12'']]
     \<and> csv_records train = [[''24'', ''6'', ''18''], [''21'', ''2'', ''0'']]"
proof -
  have digits: "str_nat 0 = ''0''" "str_nat 2 = ''2''" "str_nat 3 = ''3''" "str_nat 6 = ''6''"
    "str_nat 12 = ''12''" "str_nat 18 = ''18''" "str_nat 21 = ''21''" "str_nat 24 = ''24''"
    "str_nat 27 = ''27''"
    by (simp_all add: str_nat.simps digit_char_def)
  show ?thesis
    using save_cell_writes [of
       "\<lparr>df_columns = [''0''], df_index = [7], df_values = [[27]]\<rparr>"
       "\<lparr>df_columns = [''CRIM'', ''ZN''], df_index = [7], df_values = [[3, 12]]\<rparr>"
       "\<lparr>df_columns = [''0''], df_index = [4, 9], df_values = [[24], [21]]\<rparr>"
       "\<lparr>df_columns = [''CRIM'', ''ZN''], df_index = [4, 9], df_values = [[6, 18], [2, 0]]\<rparr>"
       str_nat]
    by (simp add: well_formed_def plain_cells_def single_column_def digits comma_def newline_def)
qed

section \<open>The split into train, validation and test rows\<close>

lemma splits_two_stage:
  assumes first: "splits bos (train_test_split shuffle g1 args bos)"
    and second: "splits (fst (train_test_split shuffle g1 args bos))
                   (train_test_split shuffle g2 args (fst (train_test_split shuffle g1 args bos)))"
  shows "splits3 bos (two_stage_split shuffle args g1 g2 bos)"
proof -
  obtain train test where s1: "train_test_split shuffle g1 args bos = (train, test)"
    by (cases "train_test_split shuffle g1 args bos")
  obtain train' val where s2: "train_test_split shuffle g2 args train = (train', val)"
    by (cases "train_test_split shuffle g2 args train")
  have a: "set train \<inter> set test = {}" "set train \<union> set test = set bos"
    using first by (simp_all add: splits_def s1)
  have b: "set train' \<inter> set val = {}" "set train' \<union> set val = set train"
    using second by (simp_all add: splits_def s1 s2)
  have "set train' \<inter> set test = {}" "set val \<inter> set test = {}"
    using a(1) b(2) by auto
  moreover have "set train' \<union> set val \<union> set test = set bos"
    using a(2) b(2) by simp
  ultimately show ?thesis
    using b(1) by (simp add: splits3_def two_stage_split_def s1 s2)
qed

text \<open>
  Claim C6. If every call of the library's shuffle cuts its rows into two parts with
  no row in both and every row in one, then in each notebook the train, validation
  and test rows are pairwise disjoint and together they are the rows of the dataset.
\<close>

theorem split_partitions:
  assumes "\<And>ts seed rows. splits rows (shuffle ts seed rows)"
  shows "splits3 bos (hl_split shuffle g1 g2 bos) \<and> splits3 bos (ll_split shuffle g1 g2 bos)"
proof -
  have "splits rows (train_test_split shuffle g args rows)" for g args rows
    using assms by (simp add: train_test_split_def)
  then show ?thesis
    unfolding hl_split_def ll_split_def by (intro conjI splits_two_stage)
qed

text \<open>A shuffle that puts the even rows on one side and the odd rows on the other.\<close>

theorem split_partitions_witness:
  "splits3 [1, 2, 3, 4, 5, 6 :: nat]
     (hl_split (\<lambda>ts seed rows. (filter even rows, filter odd rows)) 0 0 [1, 2, 3, 4, 5, 6])
   \<and> splits3 [1, 2, 3, 4, 5, 6 :: nat]
     (ll_split (\<lambda>ts seed rows. (filter even rows, filter odd rows)) 0 0 [1, 2, 3, 4, 5, 6])"
proof -
  have "splits rows ((\<lambda>ts seed rows. (filter even rows, filter odd rows)) ts seed rows)"
    for ts :: string and seed :: nat and rows :: "nat list"
    by (auto simp: splits_def)
  then show ?thesis
    by (rule split_partitions)
qed

text \<open>
  Claim C7, as far as it holds. The high-level notebook passes the seed 1123 to both
  calls, so its train, validation and test rows are the same whatever state the
  process-wide generator is in: two runs on the same data give the same three sets.
  The low-level notebook passes no seed; its rows are what the shuffle makes of the
  generator's states at the two calls.
\<close>

theorem hl_split_repeatable:
  "hl_split shuffle g1 g2 bos = hl_split shuffle g1' g2' bos
   \<and> random_state hl_split_args = Some 1123
   \<and> random_state ll_split_args = None
   \<and> ll_split shuffle g1 g2 bos =
       (let (train, test) = shuffle ''0.33'' g1 bos;
            (train, val) = shuffle ''0.33'' g2 train
        in (train, val, test))"
  by (simp add: hl_split_def ll_split_def two_stage_split_def train_test_split_def
        hl_split_args_def ll_split_args_def)

text \<open>
  The low-level notebook's split is not the same in every run: with a shuffle that
  cuts the rows where the generator's state says, two states give different sets.
\<close>

theorem ll_split_counterexample:
  "random_state ll_split_args = None
   \<and> ll_split (\<lambda>ts g rows. (take g rows, drop g rows)) 1 1 [10, 20, 30 :: nat]
     \<noteq> ll_split (\<lambda>ts g rows. (take g rows, drop g rows)) 2 1 [10, 20, 30]"
  by (simp add: ll_split_def two_stage_split_def train_test_split_def ll_split_args_def)

section \<open>The guard of the data directory\<close>

lemma components_data_dir: "components data_dir = [''..'', ''data'', ''boston'']"
  by (simp add: components_def data_dir_def)

lemma components_files:
  "components (os_path_join data_dir ''validation.csv'') = [''..'', ''data'', ''boston'', ''validation.csv'']"
  "components (os_path_join data_dir ''train.csv'') = [''..'', ''data'', ''boston'', ''train.csv'']"
  by (simp_all add: components_def data_dir_def os_path_join_def)

lemma ancestors_data_dir: "ancestors [''..'', ''data'', ''boston''] = [[''..''], [''..'', ''data'']]"
  by (simp add: ancestors_def)

lemma makedirs_data_dir:
  assumes "makedirs fs data_dir = Inr fs'"
  shows "fs' [''..'', ''data'', ''boston''] = Some Dir"
  using assms
  by (auto simp: makedirs_def components_data_dir ancestors_data_dir Let_def split: if_splits)

lemma write_files_parent:
  assumes "fs [''..'', ''data'', ''boston''] = Some Dir"
  shows "\<not> lacks_parent (write_files fs)"
  using assms
  by (auto simp: write_files_def open_for_writing_def components_files lacks_parent_def Let_def
           split: sum.splits option.splits node.splits if_splits)

text \<open>
  Claim C9, as far as it holds. The guard calls \<^verbatim>\<open>os.makedirs\<close> exactly when
  nothing is at the path of the data directory, and leaves the file system as it is
  when something is there. When the guard goes through and the path was not taken by
  a file, the data directory is a directory afterwards and the writes of the two CSV
  files do not fail for lack of a parent directory.
\<close>

theorem ensure_data_dir_guard:
  "(fs (components data_dir) = None \<longrightarrow> ensure_data_dir fs = makedirs fs data_dir)
   \<and> (fs (components data_dir) \<noteq> None \<longrightarrow> ensure_data_dir fs = Inr fs)
   \<and> (ensure_data_dir fs = Inr fs' \<and> fs (components data_dir) \<noteq> Some File \<longrightarrow>
        fs' (components data_dir) = Some Dir \<and> \<not> lacks_parent (write_files fs'))"
proof (intro conjI impI)
  assume "fs (components data_dir) = None"
  then show "ensure_data_dir fs = makedirs fs data_dir"
    by (simp add: ensure_data_dir_def path_exists_def)
next
  assume "fs (components data_dir) \<noteq> None"
  then show "ensure_data_dir fs = Inr fs"
    by (simp add: ensure_data_dir_def path_exists_def)
next
  assume a: "ensure_data_dir fs = Inr fs' \<and> fs (components data_dir) \<noteq> Some File"
  show "fs' (components data_dir) = Some Dir"
  proof (cases "fs (components data_dir)")
    case None
    then have "makedirs fs data_dir = Inr fs'"
      using a by (simp add: ensure_data_dir_def path_exists_def)
    then show ?thesis
      by (simp add: makedirs_data_dir components_data_dir)
  next
    case (Some n)
    then have "fs' = fs" "n = Dir"
      using a by (auto simp: ensure_data_dir_def path_exists_def intro: node.exhaust)
    then show ?thesis using Some by simp
  qed
  then show "\<not> lacks_parent (write_files fs')"
    by (simp add: write_files_parent components_data_dir)
qed

text \<open>A run that finds only the parent of the working directory, and a run that
  finds the data directory in place.\<close>

theorem ensure_data_dir_guard_witness:
  "ensure_data_dir [[''..''] \<mapsto> Dir]
     = Inr [[''..''] \<mapsto> Dir, [''..'', ''data''] \<mapsto> Dir, [''..'', ''data'', ''boston''] \<mapsto> Dir]
   \<and> ensure_data_dir [[''..''] \<mapsto> Dir]
     = makedirs [[''..''] \<mapsto> Dir] data_dir
   \<and> ensure_data_dir [[''..''] \<mapsto> Dir, [''..'', ''data''] \<mapsto> Dir, [''..'', ''data'', ''boston''] \<mapsto> Dir]
     = Inr [[''..''] \<mapsto> Dir, [''..'', ''data''] \<mapsto> Dir, [''..'', ''data'', ''boston''] \<mapsto> Dir]
   \<and> \<not> lacks_parent (write_files
        [[''..''] \<mapsto> Dir, [''..'', ''data''] \<mapsto> Dir, [''..'', ''data'', ''boston''] \<mapsto> Dir])"
proof -
  have run: "ensure_data_dir [[''..''] \<mapsto> Dir]
     = Inr [[''..''] \<mapsto> Dir, [''..'', ''data''] \<mapsto> Dir, [''..'', ''data'', ''boston''] \<mapsto> Dir]"
    by (simp add: ensure_data_dir_def path_exists_def makedirs_def components_data_dir ancestors_data_dir)
  have absent: "[[''..''] \<mapsto> Dir] (components data_dir) = None"
    by (simp add: components_data_dir)
  have present:
    "[[''..''] \<mapsto> Dir, [''..'', ''data''] \<mapsto> Dir, [''..'', ''data'', ''boston''] \<mapsto> Dir]
       (components data_dir) \<noteq> None"
    by (simp add: components_data_dir)
  show ?thesis
    using ensure_data_dir_guard [of "[[''..''] \<mapsto> Dir]"
        "[[''..''] \<mapsto> Dir, [''..'', ''data''] \<mapsto> Dir, [''..'', ''data'', ''boston''] \<mapsto> Dir]"]
      ensure_data_dir_guard [of
        "[[''..''] \<mapsto> Dir, [''..'', ''data''] \<mapsto> Dir, [''..'', ''data'', ''boston''] \<mapsto> Dir]"
        "[[''..''] \<mapsto> Dir, [''..'', ''data''] \<mapsto> Dir, [''..'', ''data'', ''boston''] \<mapsto> Dir]"]
      run absent present
    by simp
qed

text \<open>
  When a file has the name of the data directory, the path exists, the guard creates
  nothing, and the first write fails because its parent is not a directory.
\<close>

theorem ensure_data_dir_counterexample:
  "ensure_data_dir [[''..''] \<mapsto> Dir, [''..'', ''data''] \<mapsto> Dir, [''..'', ''data'', ''boston''] \<mapsto> File]
     = Inr [[''..''] \<mapsto> Dir, [''..'', ''data''] \<mapsto> Dir, [''..'', ''data'', ''boston''] \<mapsto> File]
   \<and> write_files [[''..''] \<mapsto> Dir, [''..'', ''data''] \<mapsto> Dir, [''..'', ''data'', ''boston''] \<mapsto> File]
     = Inl NotADirectoryError
   \<and> lacks_parent (write_files
        [[''..''] \<mapsto> Dir, [''..'', ''data''] \<mapsto> Dir, [''..'', ''data'', ''boston''] \<mapsto> File])"
  by (simp add: ensure_data_dir_def path_exists_def components_data_dir write_files_def
        open_for_writing_def components_files lacks_parent_def)

section \<open>The runs of the notebooks\<close>

lemmas run_simps =
  hl_notebook_def ll_notebook_def Let_def

lemma timestamp_example:
  "timestamp \<lparr>tm_year = 2019, tm_mon = 11, tm_mday = 9, tm_hour = 14, tm_min = 20, tm_sec = 3\<rparr>
     = ''2019-11-09-14-20-03''"
  by (simp add: timestamp_def directive_def pad2_def str_nat.simps digit_char_def)

lemma hyperparameter_texts:
  "str_nat 4 = ''4''" "str_nat 5 = ''5''" "str_nat 6 = ''6''" "str_nat 10 = ''10''"
  "str_nat 200 = ''200''"
  by (simp_all add: str_nat.simps digit_char_def)

subsection \<open>A run and the run in which no call raises\<close>

text \<open>
  A run makes the same calls as the run in which nothing raises for outside reasons,
  up to the call that stops it; a run that is not stopped is that run.
\<close>

lemma exec_stmt_stopped: "stopped st \<noteq> None \<Longrightarrow> exec_stmt raises s st = st"
  by (cases s) auto

lemma fold_exec_stopped: "stopped st \<noteq> None \<Longrightarrow> fold (exec_stmt raises) ss st = st"
  by (induction ss) (auto simp: exec_stmt_stopped)

lemma run_all_concat: "run_all raises cells st = fold (exec_stmt raises) (concat cells) st"
  unfolding run_all_def
  by (induction cells arbitrary: st) (simp_all add: run_cell_def)

lemma made_make_call: "made (make_call raises c st) = made st @ [c]"
  by (simp add: make_call_def split: sum.splits)

lemma make_call_never:
  "make_call raises c st = make_call never c st
   \<or> (stopped (make_call raises c st) \<noteq> None)"
  by (simp add: make_call_def never_def split: sum.splits)

lemma make_call_no_raise: "\<not> can_raise c \<Longrightarrow> make_call raises c st = make_call never c st"
  by (simp add: make_call_def never_def split: sum.splits)

lemma prefix_made_exec: "prefix (made st) (made (exec_stmt raises s st))"
proof (induction s arbitrary: st)
  case (Call reads c)
  then show ?case by (simp add: made_make_call split: option.splits)
next
  case (Assign x reads e)
  then show ?case by (simp split: option.splits)
next
  case (If_not_exists x body)
  have "prefix (made st) (made (make_call raises (Path_exists (value_of (vars st) x)) st))"
    by (simp add: made_make_call)
  moreover have "prefix (made (make_call raises (Path_exists (value_of (vars st) x)) st))
      (made (exec_stmt raises body (make_call raises (Path_exists (value_of (vars st) x)) st)))"
    by (rule If_not_exists.IH)
  ultimately show ?case
    by (auto simp: Let_def split: option.splits intro: prefix_order.trans)
qed

lemma prefix_made_fold: "prefix (made st) (made (fold (exec_stmt raises) ss st))"
proof (induction ss arbitrary: st)
  case Nil
  then show ?case by simp
next
  case (Cons s ss)
  have "prefix (made st) (made (exec_stmt raises s st))"
    by (rule prefix_made_exec)
  also have "prefix \<dots> (made (fold (exec_stmt raises) ss (exec_stmt raises s st)))"
    by (rule Cons.IH)
  finally show ?case by simp
qed

lemma exec_stmt_never:
  "exec_stmt raises s st = exec_stmt never s st
   \<or> (stopped (exec_stmt raises s st) \<noteq> None
      \<and> prefix (made (exec_stmt raises s st)) (made (exec_stmt never s st)))"
proof (induction s arbitrary: st)
  case (Call reads c)
  show ?case
    using make_call_never [of raises "c (value_of (vars st))" st]
    by (auto simp: made_make_call split: option.splits)
next
  case (Assign x reads e)
  then show ?case by simp
next
  case (If_not_exists x body)
  let ?p = "value_of (vars st) x"
  have same: "make_call raises (Path_exists ?p) st = make_call never (Path_exists ?p) st"
    by (rule make_call_no_raise) simp
  let ?st' = "make_call never (Path_exists ?p) st"
  show ?case
  proof (cases "stopped st = None \<and> first_unbound (vars st) [x] = None")
    case False
    then have "exec_stmt raises (If_not_exists x body) st = exec_stmt never (If_not_exists x body) st"
      by (auto split: option.splits)
    then show ?thesis by simp
  next
    case True
    show ?thesis
    proof (cases "path_exists (files ?st') ?p")
      case exists: True
      have "exec_stmt raises (If_not_exists x body) st = ?st'"
        using True exists by (simp add: same Let_def)
      moreover have "exec_stmt never (If_not_exists x body) st = ?st'"
        using True exists by (simp add: Let_def)
      ultimately show ?thesis by simp
    next
      case absent: False
      have "exec_stmt raises (If_not_exists x body) st = exec_stmt raises body ?st'"
        using True absent by (simp add: same Let_def)
      moreover have "exec_stmt never (If_not_exists x body) st = exec_stmt never body ?st'"
        using True absent by (simp add: Let_def)
      ultimately show ?thesis
        using If_not_exists.IH [of ?st'] by simp
    qed
  qed
qed

lemma run_never:
  "prefix (made (fold (exec_stmt raises) ss st)) (made (fold (exec_stmt never) ss st))
   \<and> (stopped (fold (exec_stmt raises) ss st) = None \<longrightarrow>
        fold (exec_stmt raises) ss st = fold (exec_stmt never) ss st)"
proof (induction ss arbitrary: st)
  case Nil
  then show ?case by simp
next
  case (Cons s ss)
  consider (same) "exec_stmt raises s st = exec_stmt never s st"
    | (raised) "stopped (exec_stmt raises s st) \<noteq> None"
        "prefix (made (exec_stmt raises s st)) (made (exec_stmt never s st))"
    using exec_stmt_never [of raises s st] by blast
  then show ?case
  proof cases
    case same
    then show ?thesis using Cons.IH [of "exec_stmt never s st"] by simp
  next
    case raised
    have "fold (exec_stmt raises) (s # ss) st = exec_stmt raises s st"
      using raised(1) by (simp add: fold_exec_stopped)
    moreover have "prefix (made (exec_stmt never s st)) (made (fold (exec_stmt never) ss (exec_stmt never s st)))"
      by (rule prefix_made_fold)
    ultimately show ?thesis
      using raised by (auto intro: prefix_order.trans)
  qed
qed

lemma prefix_map_filter: "prefix xs ys \<Longrightarrow> prefix (List.map_filter f xs) (List.map_filter f ys)"
  by (auto simp: prefix_def List.map_filter_def)

lemma remdups_adj_snoc_prefix: "prefix (remdups_adj xs) (remdups_adj (xs @ ys))"
proof (induction xs rule: remdups_adj.induct)
  case 1
  then show ?case by simp
next
  case (2 x)
  then show ?case by (simp add: remdups_adj_Cons split: list.splits)
next
  case (3 x y xs)
  then show ?case by auto
qed

lemma prefix_remdups_adj:
  assumes "prefix xs ys"
  shows "prefix (remdups_adj xs) (remdups_adj ys)"
proof -
  obtain zs where "ys = xs @ zs"
    using assms by (auto simp: prefix_def)
  then show ?thesis
    by (simp add: remdups_adj_snoc_prefix)
qed

lemma prefix_steps: "prefix xs ys \<Longrightarrow> prefix (steps xs) (steps ys)"
  by (simp add: steps_def prefix_map_filter prefix_remdups_adj)

lemma prefix_work: "prefix xs ys \<Longrightarrow> prefix (work xs) (work ys)"
  by (simp add: work_def prefix_map_filter)

lemma prefix_setup_first: "prefix xs ys \<Longrightarrow> setup_first ys \<Longrightarrow> setup_first xs"
proof -
  assume "prefix xs ys" and ys: "setup_first ys"
  then obtain zs where zs: "ys = xs @ zs" by (auto simp: prefix_def)
  show "setup_first xs"
  proof (cases "\<forall>c \<in> set xs. is_setup c")
    case True
    then have d: "dropWhile is_setup xs = []" by simp
    show ?thesis unfolding setup_first_def d by simp
  next
    case False
    then have "dropWhile is_setup (xs @ zs) = dropWhile is_setup xs @ zs"
      by auto
    then show ?thesis using ys zs by (simp add: setup_first_def)
  qed
qed

lemmas exec_simps =
  run_all_def run_cell_def initial_def opaque_def first_unbound_def value_of_def
  make_call_def never_def Let_def

lemmas world_simps =
  path_exists_def makedirs_def open_for_writing_def components_def ancestors_def
  os_path_join_def

subsection \<open>The calls of a run\<close>

text \<open>
  With nothing raising for outside reasons, a run makes the calls listed for the
  notebook, up to the call at which the local file system stops it, if it does.
\<close>

lemma hl_never_run:
  "prefix (made (hl_run never w endpoint)) (hl_notebook w endpoint)
   \<and> (stopped (hl_run never w endpoint) = None \<longrightarrow>
        made (hl_run never w endpoint) = hl_notebook w endpoint)"
proof -
  note defs = hl_run_def hl_cells_def hl_notebook_def exec_simps data_dir_def
  let ?val = "os_path_join ''../data/boston'' ''validation.csv''"
  let ?train = "os_path_join ''../data/boston'' ''train.csv''"
  show ?thesis
  proof (cases "path_exists (local_fs w) ''../data/boston''")
    case present: True
    show ?thesis
    proof (cases "open_for_writing (local_fs w) ?val")
      case (Inl e)
      with present show ?thesis by (simp add: defs)
    next
      case val: (Inr fs1)
      show ?thesis
      proof (cases "open_for_writing fs1 ?train")
        case (Inl e)
        with present val show ?thesis by (simp add: defs)
      next
        case (Inr fs2)
        with present val show ?thesis by (simp add: defs)
      qed
    qed
  next
    case absent: False
    show ?thesis
    proof (cases "makedirs (local_fs w) ''../data/boston''")
      case (Inl e)
      with absent show ?thesis by (simp add: defs)
    next
      case dir: (Inr fs)
      show ?thesis
      proof (cases "open_for_writing fs ?val")
        case (Inl e)
        with absent dir show ?thesis by (simp add: defs)
      next
        case val: (Inr fs1)
        show ?thesis
        proof (cases "open_for_writing fs1 ?train")
          case (Inl e)
          with absent dir val show ?thesis by (simp add: defs)
        next
          case (Inr fs2)
          with absent dir val show ?thesis by (simp add: defs)
        qed
      qed
    qed
  qed
qed

lemma ll_never_run:
  "prefix (made (ll_run never w now1 now2 now3)) (ll_notebook w now1 now2 now3)
   \<and> (stopped (ll_run never w now1 now2 now3) = None \<longrightarrow>
        made (ll_run never w now1 now2 now3) = ll_notebook w now1 now2 now3)"
proof -
  note defs = ll_run_def ll_cells_def ll_notebook_def exec_simps data_dir_def
  let ?val = "os_path_join ''../data/boston'' ''validation.csv''"
  let ?train = "os_path_join ''../data/boston'' ''train.csv''"
  show ?thesis
  proof (cases "path_exists (local_fs w) ''../data/boston''")
    case present: True
    show ?thesis
    proof (cases "open_for_writing (local_fs w) ?val")
      case (Inl e)
      with present show ?thesis by (simp add: defs)
    next
      case val: (Inr fs1)
      show ?thesis
      proof (cases "open_for_writing fs1 ?train")
        case (Inl e)
        with present val show ?thesis by (simp add: defs)
      next
        case (Inr fs2)
        with present val show ?thesis by (simp add: defs)
      qed
    qed
  next
    case absent: False
    show ?thesis
    proof (cases "makedirs (local_fs w) ''../data/boston''")
      case (Inl e)
      with absent show ?thesis by (simp add: defs)
    next
      case dir: (Inr fs)
      show ?thesis
      proof (cases "open_for_writing fs ?val")
        case (Inl e)
        with absent dir show ?thesis by (simp add: defs)
      next
        case val: (Inr fs1)
        show ?thesis
        proof (cases "open_for_writing fs1 ?train")
          case (Inl e)
          with absent dir val show ?thesis by (simp add: defs)
        next
          case (Inr fs2)
          with absent dir val show ?thesis by (simp add: defs)
        qed
      qed
    qed
  qed
qed

lemma hl_notebook_steps:
  "steps (hl_notebook w endpoint) = pipeline \<and> work (hl_notebook w endpoint) = hl_work
   \<and> setup_first (hl_notebook w endpoint)"
  by (cases "path_exists (local_fs w) data_dir")
     (simp_all add: run_simps steps_def work_def setup_first_def is_setup_def pipeline_def hl_work_def)

lemma ll_notebook_steps:
  "steps (ll_notebook w now1 now2 now3) = pipeline \<and> work (ll_notebook w now1 now2 now3) = ll_work
   \<and> setup_first (ll_notebook w now1 now2 now3)"
  by (cases "path_exists (local_fs w) data_dir")
     (simp_all add: run_simps steps_def work_def setup_first_def is_setup_def pipeline_def ll_work_def)

text \<open>
  The calls of any run are an initial part of the calls listed for the notebook, and
  all of them when the run is not stopped.
\<close>

lemma hl_run_calls:
  "prefix (made (hl_run raises w endpoint)) (hl_notebook w endpoint)
   \<and> (stopped (hl_run raises w endpoint) = None \<longrightarrow>
        made (hl_run raises w endpoint) = hl_notebook w endpoint)"
proof -
  let ?prog = "concat (hl_cells w endpoint)"
  have real: "hl_run raises w endpoint = fold (exec_stmt raises) ?prog (initial w)"
    by (simp add: hl_run_def run_all_concat)
  have ideal: "hl_run never w endpoint = fold (exec_stmt never) ?prog (initial w)"
    by (simp add: hl_run_def run_all_concat)
  have "prefix (made (hl_run raises w endpoint)) (made (hl_run never w endpoint))"
    unfolding real ideal using run_never [of raises ?prog "initial w"] by blast
  moreover have "hl_run raises w endpoint = hl_run never w endpoint"
    if "stopped (hl_run raises w endpoint) = None"
    using that run_never [of raises ?prog "initial w"] unfolding real ideal by blast
  ultimately show ?thesis
    using hl_never_run [of w endpoint] by (auto intro: prefix_order.trans)
qed

lemma ll_run_calls:
  "prefix (made (ll_run raises w now1 now2 now3)) (ll_notebook w now1 now2 now3)
   \<and> (stopped (ll_run raises w now1 now2 now3) = None \<longrightarrow>
        made (ll_run raises w now1 now2 now3) = ll_notebook w now1 now2 now3)"
proof -
  let ?prog = "concat (ll_cells w now1 now2 now3)"
  have real: "ll_run raises w now1 now2 now3 = fold (exec_stmt raises) ?prog (initial w)"
    by (simp add: ll_run_def run_all_concat)
  have ideal: "ll_run never w now1 now2 now3 = fold (exec_stmt never) ?prog (initial w)"
    by (simp add: ll_run_def run_all_concat)
  have "prefix (made (ll_run raises w now1 now2 now3)) (made (ll_run never w now1 now2 now3))"
    unfolding real ideal using run_never [of raises ?prog "initial w"] by blast
  moreover have "ll_run raises w now1 now2 now3 = ll_run never w now1 now2 now3"
    if "stopped (ll_run raises w now1 now2 now3) = None"
    using that run_never [of raises ?prog "initial w"] unfolding real ideal by blast
  ultimately show ?thesis
    using ll_never_run [of w now1 now2 now3] by (auto intro: prefix_order.trans)
qed

lemma work_lists: "distinct pipeline" "remdups_adj hl_work = pipeline" "remdups_adj ll_work = pipeline"
  by (simp_all add: pipeline_def hl_work_def ll_work_def)

text \<open>
  Claim C4. Run as a script, each notebook goes through the steps load data, split,
  serialize to file, upload, training, deployment, inference, plot and teardown in
  this order. In every run, whatever it finds and whichever call raises, the steps
  entered and the work done are an initial part of that sequence: no step is entered
  before the work of the steps before it is done, and none is entered twice; the
  set-up of the session comes before the first step. A run that is not stopped goes
  through all nine steps and does all their work, each call in its place.
\<close>

theorem notebooks_run_linear:
  "prefix (steps (made (hl_run raises w endpoint))) pipeline
   \<and> prefix (work (made (hl_run raises w endpoint))) hl_work
   \<and> setup_first (made (hl_run raises w endpoint))
   \<and> (stopped (hl_run raises w endpoint) = None \<longrightarrow>
        steps (made (hl_run raises w endpoint)) = pipeline
        \<and> work (made (hl_run raises w endpoint)) = hl_work)
   \<and> prefix (steps (made (ll_run raises w now1 now2 now3))) pipeline
   \<and> prefix (work (made (ll_run raises w now1 now2 now3))) ll_work
   \<and> setup_first (made (ll_run raises w now1 now2 now3))
   \<and> (stopped (ll_run raises w now1 now2 now3) = None \<longrightarrow>
        steps (made (ll_run raises w now1 now2 now3)) = pipeline
        \<and> work (made (ll_run raises w now1 now2 now3)) = ll_work)
   \<and> distinct pipeline \<and> remdups_adj hl_work = pipeline \<and> remdups_adj ll_work = pipeline"
proof -
  have hl: "prefix (made (hl_run raises w endpoint)) (hl_notebook w endpoint)"
    and hl_done: "stopped (hl_run raises w endpoint) = None \<longrightarrow>
        made (hl_run raises w endpoint) = hl_notebook w endpoint"
    using hl_run_calls [of raises w endpoint] by simp_all
  have ll: "prefix (made (ll_run raises w now1 now2 now3)) (ll_notebook w now1 now2 now3)"
    and ll_done: "stopped (ll_run raises w now1 now2 now3) = None \<longrightarrow>
        made (ll_run raises w now1 now2 now3) = ll_notebook w now1 now2 now3"
    using ll_run_calls [of raises w now1 now2 now3] by simp_all
  have "prefix (steps (made (hl_run raises w endpoint))) pipeline"
    using prefix_steps [OF hl] hl_notebook_steps [of w endpoint] by simp
  moreover have "prefix (work (made (hl_run raises w endpoint))) hl_work"
    using prefix_work [OF hl] hl_notebook_steps [of w endpoint] by simp
  moreover have "setup_first (made (hl_run raises w endpoint))"
    using prefix_setup_first [OF hl] hl_notebook_steps [of w endpoint] by simp
  moreover have "prefix (steps (made (ll_run raises w now1 now2 now3))) pipeline"
    using prefix_steps [OF ll] ll_notebook_steps [of w now1 now2 now3] by simp
  moreover have "prefix (work (made (ll_run raises w now1 now2 now3))) ll_work"
    using prefix_work [OF ll] ll_notebook_steps [of w now1 now2 now3] by simp
  moreover have "setup_first (made (ll_run raises w now1 now2 now3))"
    using prefix_setup_first [OF ll] ll_notebook_steps [of w now1 now2 now3] by simp
  ultimately show ?thesis
    using hl_done ll_done hl_notebook_steps [of w endpoint] ll_notebook_steps [of w now1 now2 now3]
      work_lists
    by simp
qed

text \<open>A run in which nothing raises, from a file system that holds the parent of
  the working directory only.\<close>

theorem notebooks_run_linear_witness:
  "stopped (hl_run never \<lparr>local_fs = [[''..''] \<mapsto> Dir], boto_region_name = ''us-east-1'', default_bucket = ''bucket''\<rparr> ''xgboost-endpoint'') = None
   \<and> steps (made (hl_run never \<lparr>local_fs = [[''..''] \<mapsto> Dir], boto_region_name = ''us-east-1'', default_bucket = ''bucket''\<rparr> ''xgboost-endpoint'')) = pipeline
   \<and> work (made (hl_run never \<lparr>local_fs = [[''..''] \<mapsto> Dir], boto_region_name = ''us-east-1'', default_bucket = ''bucket''\<rparr> ''xgboost-endpoint'')) = hl_work
   \<and> stopped (ll_run never \<lparr>local_fs = [[''..''] \<mapsto> Dir], boto_region_name = ''us-east-1'', default_bucket = ''bucket''\<rparr> \<lparr>tm_year = 2019, tm_mon = 11, tm_mday = 9, tm_hour = 14, tm_min = 20, tm_sec = 3\<rparr> \<lparr>tm_year = 2019, tm_mon = 11, tm_mday = 9, tm_hour = 14, tm_min = 25, tm_sec = 0\<rparr> \<lparr>tm_year = 2019, tm_mon = 11, tm_mday = 9, tm_hour = 14, tm_min = 25, tm_sec = 1\<rparr>) = None
   \<and> steps (made (ll_run never \<lparr>local_fs = [[''..''] \<mapsto> Dir], boto_region_name = ''us-east-1'', default_bucket = ''bucket''\<rparr> \<lparr>tm_year = 2019, tm_mon = 11, tm_mday = 9, tm_hour = 14, tm_min = 20, tm_sec = 3\<rparr> \<lparr>tm_year = 2019, tm_mon = 11, tm_mday = 9, tm_hour = 14, tm_min = 25, tm_sec = 0\<rparr> \<lparr>tm_year = 2019, tm_mon = 11, tm_mday = 9, tm_hour = 14, tm_min = 25, tm_sec = 1\<rparr>)) = pipeline
   \<and> work (made (ll_run never \<lparr>local_fs = [[''..''] \<mapsto> Dir], boto_region_name = ''us-east-1'', default_bucket = ''bucket''\<rparr> \<lparr>tm_year = 2019, tm_mon = 11, tm_mday = 9, tm_hour = 14, tm_min = 20, tm_sec = 3\<rparr> \<lparr>tm_year = 2019, tm_mon = 11, tm_mday = 9, tm_hour = 14, tm_min = 25, tm_sec = 0\<rparr> \<lparr>tm_year = 2019, tm_mon = 11, tm_mday = 9, tm_hour = 14, tm_min = 25, tm_sec = 1\<rparr>)) = ll_work"
proof -
  have hl: "stopped (hl_run never \<lparr>local_fs = [[''..''] \<mapsto> Dir], boto_region_name = ''us-east-1'', default_bucket = ''bucket''\<rparr> ''xgboost-endpoint'') = None"
    by (simp add: hl_run_def hl_cells_def exec_simps world_simps)
  have ll: "stopped (ll_run never \<lparr>local_fs = [[''..''] \<mapsto> Dir], boto_region_name = ''us-east-1'', default_bucket = ''bucket''\<rparr> \<lparr>tm_year = 2019, tm_mon = 11, tm_mday = 9, tm_hour = 14, tm_min = 20, tm_sec = 3\<rparr> \<lparr>tm_year = 2019, tm_mon = 11, tm_mday = 9, tm_hour = 14, tm_min = 25, tm_sec = 0\<rparr> \<lparr>tm_year = 2019, tm_mon = 11, tm_mday = 9, tm_hour = 14, tm_min = 25, tm_sec = 1\<rparr>) = None"
    by (simp add: ll_run_def ll_cells_def exec_simps world_simps)
  show ?thesis
    using notebooks_run_linear [of never "\<lparr>local_fs = [[''..''] \<mapsto> Dir], boto_region_name = ''us-east-1'', default_bucket = ''bucket''\<rparr>" "''xgboost-endpoint''" "\<lparr>tm_year = 2019, tm_mon = 11, tm_mday = 9, tm_hour = 14, tm_min = 20, tm_sec = 3\<rparr>" "\<lparr>tm_year = 2019, tm_mon = 11, tm_mday = 9, tm_hour = 14, tm_min = 25, tm_sec = 0\<rparr>" "\<lparr>tm_year = 2019, tm_mon = 11, tm_mday = 9, tm_hour = 14, tm_min = 25, tm_sec = 1\<rparr>"] hl ll
    by simp
qed

text \<open>
  The order is a property of the cells, not of the way they are run: the cells of
  the high-level notebook taken from the last to the first stop at the deletion of
  an endpoint that no cell has created yet.
\<close>

lemma reversed_cells_stop:
  "stopped (run_all never (rev (hl_cells w endpoint)) (initial w)) = Some (NameError ''xgb_predictor'')
   \<and> steps (made (run_all never (rev (hl_cells w endpoint)) (initial w))) = [Teardown]"
  by (simp add: hl_cells_def exec_simps steps_def)

text \<open>
  Nor is it built into the way cells are run that no step is repeated: with the cell
  that loads the data run once more after the last cell, the first step is entered a
  second time.
\<close>

lemma rerun_cell_repeats:
  "steps (made (run_all never
     (hl_cells \<lparr>local_fs = [[''..''] \<mapsto> Dir], boto_region_name = ''us-east-1'', default_bucket = ''bucket''\<rparr> ''xgboost-endpoint'' @ [[Call [] (\<lambda>v. Load_boston), opaque ''boston'']])
     (initial \<lparr>local_fs = [[''..''] \<mapsto> Dir], boto_region_name = ''us-east-1'', default_bucket = ''bucket''\<rparr>)))
   = pipeline @ [Load_data]"
  by (simp add: hl_cells_def exec_simps world_simps steps_def pipeline_def)

text \<open>
  Claim C5. In each notebook exactly one endpoint is created, invoked and deleted,
  in this order, and it is one and the same endpoint: the deletion names the endpoint
  the run created, nothing is invoked after the deletion, and no other endpoint is
  deleted.
\<close>

theorem endpoint_lifecycle:
  "endpoint_events (hl_notebook w endpoint)
     = [Created endpoint, Invoked endpoint, Deleted endpoint]
   \<and> endpoint_events (ll_notebook w now1 now2 now3)
     = [Created (''boston-xgboost-endpoint-'' @ timestamp now3),
        Invoked (''boston-xgboost-endpoint-'' @ timestamp now3),
        Deleted (''boston-xgboost-endpoint-'' @ timestamp now3)]"
  by (simp add: run_simps endpoint_events_def)

text \<open>In a run that is stopped, the endpoint is created, invoked and deleted as
  far as the run gets, in the same order and under the same name.\<close>

lemma endpoint_events_of_runs:
  "prefix (endpoint_events (made (hl_run raises w endpoint)))
     [Created endpoint, Invoked endpoint, Deleted endpoint]
   \<and> prefix (endpoint_events (made (ll_run raises w now1 now2 now3)))
     [Created (''boston-xgboost-endpoint-'' @ timestamp now3),
      Invoked (''boston-xgboost-endpoint-'' @ timestamp now3),
      Deleted (''boston-xgboost-endpoint-'' @ timestamp now3)]"
proof -
  have hl: "endpoint_events (hl_notebook w endpoint)
      = [Created endpoint, Invoked endpoint, Deleted endpoint]"
    by (simp add: run_simps endpoint_events_def)
  have ll: "endpoint_events (ll_notebook w now1 now2 now3)
      = [Created (''boston-xgboost-endpoint-'' @ timestamp now3),
         Invoked (''boston-xgboost-endpoint-'' @ timestamp now3),
         Deleted (''boston-xgboost-endpoint-'' @ timestamp now3)]"
    by (simp add: run_simps endpoint_events_def)
  have "prefix (made (hl_run raises w endpoint)) (hl_notebook w endpoint)"
    using hl_run_calls [of raises w endpoint] by simp
  then have "prefix (endpoint_events (made (hl_run raises w endpoint)))
          (endpoint_events (hl_notebook w endpoint))"
    unfolding endpoint_events_def by (rule prefix_map_filter)
  moreover have "prefix (made (ll_run raises w now1 now2 now3)) (ll_notebook w now1 now2 now3)"
    using ll_run_calls [of raises w now1 now2 now3] by simp
  then have "prefix (endpoint_events (made (ll_run raises w now1 now2 now3)))
          (endpoint_events (ll_notebook w now1 now2 now3))"
    unfolding endpoint_events_def by (rule prefix_map_filter)
  ultimately show ?thesis
    unfolding hl ll by (rule conjI)
qed

subsection \<open>Time stamps read back\<close>

lemma digit_cases:
  assumes "d < (10::nat)"
  shows "d = 0 \<or> d = 1 \<or> d = 2 \<or> d = 3 \<or> d = 4 \<or> d = 5 \<or> d = 6 \<or> d = 7 \<or> d = 8 \<or> d = 9"
  using assms by arith

lemma digit_value_digit_char:
  assumes "d < 10"
  shows "digit_value (digit_char d) = Some d \<and> digit_char d \<noteq> CHR ''-''"
  using digit_cases [OF assms]
  by (elim disjE) (simp_all add: digit_char_def digit_value_def)

lemma str_nat_not_Nil: "str_nat n \<noteq> []"
  by (subst str_nat.simps) simp

lemma decimal_value_snoc:
  "s \<noteq> [] \<Longrightarrow> decimal_value (s @ [c]) = decimal_step (decimal_value s) c"
  by (simp add: decimal_value_def)

lemma decimal_value_str_nat: "decimal_value (str_nat n) = Some n"
proof (induction n rule: str_nat.induct)
  case (1 n)
  show ?case
  proof (cases "n < 10")
    case True
    then show ?thesis
      by (subst str_nat.simps)
         (simp add: decimal_value_def decimal_step_def digit_value_digit_char)
  next
    case False
    have "str_nat n = str_nat (n div 10) @ [digit_char (n mod 10)]"
      using False by (subst str_nat.simps) simp
    moreover have "digit_value (digit_char (n mod 10)) = Some (n mod 10)"
      by (simp add: digit_value_digit_char)
    ultimately show ?thesis
      using 1 [OF False] by (simp add: decimal_value_snoc str_nat_not_Nil decimal_step_def)
  qed
qed

lemma str_nat_no_dash: "CHR ''-'' \<notin> set (str_nat n)"
proof (induction n rule: str_nat.induct)
  case (1 n)
  show ?case
  proof (cases "n < 10")
    case True
    then show ?thesis
      using digit_value_digit_char [of n] by (subst str_nat.simps) auto
  next
    case False
    have "str_nat n = str_nat (n div 10) @ [digit_char (n mod 10)]"
      using False by (subst str_nat.simps) simp
    then show ?thesis
      using 1 [OF False] digit_value_digit_char [of "n mod 10"] by auto
  qed
qed

lemma length_str_nat:
  "length (str_nat n) = (if n < 10 then 1 else Suc (length (str_nat (n div 10))))"
  by (subst str_nat.simps) simp

lemma length_str_nat_two: "n < 100 \<Longrightarrow> \<not> n < 10 \<Longrightarrow> length (str_nat n) = 2"
  by (simp add: length_str_nat [of n] length_str_nat [of "n div 10"])

lemma length_str_nat_four:
  assumes "1000 \<le> n" "n \<le> 9999"
  shows "length (str_nat n) = 4"
proof -
  have "\<not> n < 10" "\<not> n div 10 < 10" "\<not> n div 10 div 10 < 10" "n div 10 div 10 div 10 < 10"
    using assms by auto
  then show ?thesis
    by (simp add: length_str_nat [of n] length_str_nat [of "n div 10"]
          length_str_nat [of "n div 10 div 10"] length_str_nat [of "n div 10 div 10 div 10"])
qed

lemma pad2_field:
  assumes "n < 100"
  shows "length (pad2 n) = 2 \<and> decimal_value (pad2 n) = Some n \<and> CHR ''-'' \<notin> set (pad2 n)"
proof (cases "n < 10")
  case True
  have s: "str_nat n = [digit_char n]"
    using True by (subst str_nat.simps) simp
  have d: "digit_value (digit_char n) = Some n" and nd: "CHR ''-'' \<noteq> digit_char n"
    using digit_value_digit_char [OF True] by auto
  have z: "digit_value CHR ''0'' = Some 0"
    by (simp add: digit_value_def)
  show ?thesis
    using True by (simp add: pad2_def s decimal_value_def decimal_step_def d z nd)
next
  case False
  then show ?thesis
    using assms by (simp add: pad2_def length_str_nat_two decimal_value_str_nat str_nat_no_dash)
qed

lemma timestamp_fields:
  "timestamp t = str_nat (tm_year t) @ CHR ''-'' # pad2 (tm_mon t) @ CHR ''-'' # pad2 (tm_mday t)
     @ CHR ''-'' # pad2 (tm_hour t) @ CHR ''-'' # pad2 (tm_min t) @ CHR ''-'' # pad2 (tm_sec t)"
  by (simp add: timestamp_def directive_def)

lemma read_timestamp_timestamp:
  assumes "gmtime_range t"
  shows "read_timestamp (timestamp t) = Some t"
proof -
  have y: "length (str_nat (tm_year t)) = 4"
    using assms by (simp add: gmtime_range_def length_str_nat_four)
  have small: "tm_mon t < 100" "tm_mday t < 100" "tm_hour t < 100" "tm_min t < 100" "tm_sec t < 100"
    using assms by (simp_all add: gmtime_range_def)
  note f = small [THEN pad2_field]
  have "str_split CHR ''-'' (timestamp t) =
      [str_nat (tm_year t), pad2 (tm_mon t), pad2 (tm_mday t), pad2 (tm_hour t), pad2 (tm_min t),
       pad2 (tm_sec t)]"
    using f by (simp add: timestamp_fields str_split_append_sep str_split_no_sep str_nat_no_dash)
  then show ?thesis
    using f y by (simp add: read_timestamp_def decimal_value_str_nat)
qed

lemma ll_notebook_created:
  "created (ll_notebook w now1 now2 now3)
     = [Training_job (''boston-xgboost-'' @ timestamp now1),
        Model (''boston-xgboost-'' @ timestamp now1 @ ''-model''),
        Endpoint_config (''boston-xgboost-endpoint-config-'' @ timestamp now2),
        Endpoint (''boston-xgboost-endpoint-'' @ timestamp now3)]
   \<and> served_models (ll_notebook w now1 now2 now3) = [''boston-xgboost-2019-11-09-14-20-03-model'']"
  by (simp add: run_simps created_def served_models_def)

text \<open>
  Claim C10. In the low-level notebook the training job, the endpoint configuration
  and the endpoint are named by a fixed prefix followed by the time stamp of the
  clock at their cell, and the model that is created is named by the name of the
  training job followed by \<^verbatim>\<open>-model\<close>: in every run the resources created are
  an initial part of these four, and all four when the run is not stopped. Each
  time stamp is the reading of the clock written as \<^verbatim>\<open>YYYY-mm-dd-HH-MM-SS\<close>, from
  which the reading can be read back. The endpoint configuration, for its part, names
  the model it serves by a fixed text, not by the name of the model just created.
\<close>

theorem ll_resource_names:
  assumes "gmtime_range now1" and "gmtime_range now2" and "gmtime_range now3"
  shows "prefix (created (made (ll_run raises w now1 now2 now3)))
           [Training_job (''boston-xgboost-'' @ timestamp now1),
            Model (''boston-xgboost-'' @ timestamp now1 @ ''-model''),
            Endpoint_config (''boston-xgboost-endpoint-config-'' @ timestamp now2),
            Endpoint (''boston-xgboost-endpoint-'' @ timestamp now3)]
       \<and> (stopped (ll_run raises w now1 now2 now3) = None \<longrightarrow>
            created (made (ll_run raises w now1 now2 now3))
              = [Training_job (''boston-xgboost-'' @ timestamp now1),
                 Model (''boston-xgboost-'' @ timestamp now1 @ ''-model''),
                 Endpoint_config (''boston-xgboost-endpoint-config-'' @ timestamp now2),
                 Endpoint (''boston-xgboost-endpoint-'' @ timestamp now3)]
            \<and> served_models (made (ll_run raises w now1 now2 now3))
              = [''boston-xgboost-2019-11-09-14-20-03-model''])
       \<and> read_timestamp (timestamp now1) = Some now1
       \<and> read_timestamp (timestamp now2) = Some now2
       \<and> read_timestamp (timestamp now3) = Some now3"
proof -
  have calls: "prefix (made (ll_run raises w now1 now2 now3)) (ll_notebook w now1 now2 now3)"
    and complete: "stopped (ll_run raises w now1 now2 now3) = None \<longrightarrow>
        made (ll_run raises w now1 now2 now3) = ll_notebook w now1 now2 now3"
    using ll_run_calls [of raises w now1 now2 now3] by simp_all
  have "prefix (created (made (ll_run raises w now1 now2 now3)))
          (created (ll_notebook w now1 now2 now3))"
    using calls unfolding created_def by (rule prefix_map_filter)
  then show ?thesis
    using complete ll_notebook_created [of w now1 now2 now3] assms
    by (simp add: read_timestamp_timestamp)
qed

text \<open>A run in which nothing raises, with the clock at 14:20:03, 14:25:00 and
  14:25:01 on 9 November 2019.\<close>

theorem ll_resource_names_witness:
  "created (made (ll_run never \<lparr>local_fs = [[''..''] \<mapsto> Dir], boto_region_name = ''us-east-1'', default_bucket = ''bucket''\<rparr> \<lparr>tm_year = 2019, tm_mon = 11, tm_mday = 9, tm_hour = 14, tm_min = 20, tm_sec = 3\<rparr> \<lparr>tm_year = 2019, tm_mon = 11, tm_mday = 9, tm_hour = 14, tm_min = 25, tm_sec = 0\<rparr> \<lparr>tm_year = 2019, tm_mon = 11, tm_mday = 9, tm_hour = 14, tm_min = 25, tm_sec = 1\<rparr>))
     = [Training_job ''boston-xgboost-2019-11-09-14-20-03'',
        Model ''boston-xgboost-2019-11-09-14-20-03-model'',
        Endpoint_config ''boston-xgboost-endpoint-config-2019-11-09-14-25-00'',
        Endpoint ''boston-xgboost-endpoint-2019-11-09-14-25-01'']
   \<and> served_models (made (ll_run never \<lparr>local_fs = [[''..''] \<mapsto> Dir], boto_region_name = ''us-east-1'', default_bucket = ''bucket''\<rparr> \<lparr>tm_year = 2019, tm_mon = 11, tm_mday = 9, tm_hour = 14, tm_min = 20, tm_sec = 3\<rparr> \<lparr>tm_year = 2019, tm_mon = 11, tm_mday = 9, tm_hour = 14, tm_min = 25, tm_sec = 0\<rparr> \<lparr>tm_year = 2019, tm_mon = 11, tm_mday = 9, tm_hour = 14, tm_min = 25, tm_sec = 1\<rparr>))
     = [''boston-xgboost-2019-11-09-14-20-03-model'']
   \<and> read_timestamp ''2019-11-09-14-20-03'' = Some \<lparr>tm_year = 2019, tm_mon = 11, tm_mday = 9, tm_hour = 14, tm_min = 20, tm_sec = 3\<rparr>"
proof -
  have range: "gmtime_range \<lparr>tm_year = 2019, tm_mon = 11, tm_mday = 9, tm_hour = 14, tm_min = 20, tm_sec = 3\<rparr>" "gmtime_range \<lparr>tm_year = 2019, tm_mon = 11, tm_mday = 9, tm_hour = 14, tm_min = 25, tm_sec = 0\<rparr>" "gmtime_range \<lparr>tm_year = 2019, tm_mon = 11, tm_mday = 9, tm_hour = 14, tm_min = 25, tm_sec = 1\<rparr>"
    by (simp_all add: gmtime_range_def)
  have stamps: "timestamp \<lparr>tm_year = 2019, tm_mon = 11, tm_mday = 9, tm_hour = 14, tm_min = 20, tm_sec = 3\<rparr> = ''2019-11-09-14-20-03''" "timestamp \<lparr>tm_year = 2019, tm_mon = 11, tm_mday = 9, tm_hour = 14, tm_min = 25, tm_sec = 0\<rparr> = ''2019-11-09-14-25-00''"
    "timestamp \<lparr>tm_year = 2019, tm_mon = 11, tm_mday = 9, tm_hour = 14, tm_min = 25, tm_sec = 1\<rparr> = ''2019-11-09-14-25-01''"
    by (simp_all add: timestamp_def directive_def pad2_def str_nat.simps digit_char_def)
  have run: "stopped (ll_run never \<lparr>local_fs = [[''..''] \<mapsto> Dir], boto_region_name = ''us-east-1'', default_bucket = ''bucket''\<rparr> \<lparr>tm_year = 2019, tm_mon = 11, tm_mday = 9, tm_hour = 14, tm_min = 20, tm_sec = 3\<rparr> \<lparr>tm_year = 2019, tm_mon = 11, tm_mday = 9, tm_hour = 14, tm_min = 25, tm_sec = 0\<rparr> \<lparr>tm_year = 2019, tm_mon = 11, tm_mday = 9, tm_hour = 14, tm_min = 25, tm_sec = 1\<rparr>) = None"
    by (simp add: ll_run_def ll_cells_def exec_simps world_simps)
  show ?thesis
    using ll_resource_names [OF range, of never "\<lparr>local_fs = [[''..''] \<mapsto> Dir], boto_region_name = ''us-east-1'', default_bucket = ''bucket''\<rparr>"] run stamps
    by simp
qed

text \<open>
  Claim C1, as far as it holds. The two notebooks configure the same algorithm and
  container version, the same hyperparameter values, the same data channels, the same
  CSV options, the same size of the split and the same number of instances for
  training and for the endpoint. They differ in the seed of the split (1123 against
  none), in the storage prefix, in the type of the training instance and in the type
  of the endpoint instance; the low-level notebook also sets the size of the training
  volume and the longest run time, which the high-level notebook leaves to the client
  library.
\<close>

theorem notebooks_settings:
  "filter common_kind (settings (hl_notebook w endpoint))
     = filter common_kind (settings (ll_notebook w now1 now2 now3))
   \<and> filter is_seed (settings (hl_notebook w endpoint)) = [Seed (Some 1123), Seed (Some 1123)]
   \<and> filter is_seed (settings (ll_notebook w now1 now2 now3)) = [Seed None, Seed None]
   \<and> filter (\<lambda>s. \<not> common_kind s \<and> \<not> is_seed s) (settings (hl_notebook w endpoint))
     = [Key_prefix ''boston-xgboost-deploy-hl'', Key_prefix ''boston-xgboost-deploy-hl'',
        Training_type ''ml.p2.xlarge'', Endpoint_type ''ml.t2.medium'']
   \<and> filter (\<lambda>s. \<not> common_kind s \<and> \<not> is_seed s) (settings (ll_notebook w now1 now2 now3))
     = [Key_prefix ''boston-xgboost-deploy-ll'', Key_prefix ''boston-xgboost-deploy-ll'',
        Training_type ''ml.m4.xlarge'', Training_volume 5, Training_max_run 86400,
        Endpoint_type ''ml.m4.xlarge'']"
  by (simp add: run_simps settings_def hyperparameter_texts hl_split_args_def ll_split_args_def)

text \<open>
  The seed is not the only setting in which the notebooks differ: in a run in region
  \<^verbatim>\<open>us-east-1\<close>, the settings other than the seed are not the same.
\<close>

theorem notebooks_settings_counterexample:
  "filter (\<lambda>s. \<not> is_seed s)
     (settings (hl_notebook \<lparr>local_fs = [[''..''] \<mapsto> Dir], boto_region_name = ''us-east-1'', default_bucket = ''bucket''\<rparr>
        ''xgboost-endpoint''))
   \<noteq> filter (\<lambda>s. \<not> is_seed s)
     (settings (ll_notebook \<lparr>local_fs = [[''..''] \<mapsto> Dir], boto_region_name = ''us-east-1'', default_bucket = ''bucket''\<rparr>
        \<lparr>tm_year = 2019, tm_mon = 11, tm_mday = 9, tm_hour = 14, tm_min = 20, tm_sec = 3\<rparr>
        \<lparr>tm_year = 2019, tm_mon = 11, tm_mday = 9, tm_hour = 14, tm_min = 25, tm_sec = 0\<rparr>
        \<lparr>tm_year = 2019, tm_mon = 11, tm_mday = 9, tm_hour = 14, tm_min = 25, tm_sec = 1\<rparr>))"
  by (simp add: run_simps settings_def hyperparameter_texts hl_split_args_def ll_split_args_def
        path_exists_def components_data_dir)

end
